theory Spec2Isabelle
  imports Main
begin

section \<open>Values exchanged with the server\<close>

text \<open>
  JSON values as \<^verbatim>\<open>JSON.parse\<close> produces them.  An object is the list of its
  properties in enumeration order.  A number is a double: \<^term>\<open>JNum n\<close> is the integer
  \<open>n\<close>, which a double holds exactly when its magnitude is at most \<open>2\<^sup>5\<^sup>3\<close>;
  \<^term>\<open>JOtherNumber\<close> is any other number (a fraction, or a double beyond that range),
  of which only the truthiness is known: it is not zero.  A \<^typ>\<open>char\<close>
  stands for one UTF-16 code unit below 256, so \<^term>\<open>length s\<close> is what the
  \<^verbatim>\<open>.length\<close> property of a JavaScript string returns.
\<close>

datatype json =
    JNull
  | JBool bool
  | JNum int
  | JOtherNumber
  | JStr string
  | JArr "json list"
  | JObj "(string \<times> json) list"

text \<open>JavaScript truthiness of a JSON value (\<^verbatim>\<open>if (v)\<close>, \<^verbatim>\<open>v && ...\<close>, \<^verbatim>\<open>!v\<close>).\<close>

fun js_truthy :: "json \<Rightarrow> bool" where
  "js_truthy JNull = False"
| "js_truthy (JBool b) = b"
| "js_truthy (JNum n) = (n \<noteq> 0)"
| "js_truthy JOtherNumber = True"
| "js_truthy (JStr s) = (s \<noteq> [])"
| "js_truthy (JArr xs) = True"
| "js_truthy (JObj fs) = True"

text \<open>
  The \<^verbatim>\<open>.length\<close> property of a truthy value: the element count of an array, the
  code-unit count of a string, an own property of that name on an object, and
  \<^verbatim>\<open>undefined\<close> (\<^term>\<open>None\<close>) on a number or a boolean.
\<close>

fun js_length :: "json \<Rightarrow> json option" where
  "js_length (JArr xs) = Some (JNum (int (length xs)))"
| "js_length (JStr s) = Some (JNum (int (length s)))"
| "js_length (JObj fs) = map_of fs ''length''"
| "js_length v = None"

text \<open>
  A value that was thrown or that a promise rejected with: a string, \<^verbatim>\<open>null\<close>,
  \<^verbatim>\<open>undefined\<close>, or any other value, given by its \<^verbatim>\<open>message\<close> property
  (\<^term>\<open>None\<close> when it has none).
\<close>

datatype js_error =
    ErrString string
  | ErrNull
  | ErrUndefined
  | ErrObject "string option"

datatype extensions_value =
    ExtJson json
  | ExtUnderlyingError js_error

text \<open>
  \<^verbatim>\<open>IQueryResult\<close>.  An absent (\<^verbatim>\<open>undefined\<close>) property is \<^term>\<open>None\<close>.  The
  type of \<^verbatim>\<open>size\<close> is a parameter: the cache works with integer sizes, the HTTP
  pipeline may produce \<^verbatim>\<open>NaN\<close>.  \<^verbatim>\<open>extensions\<close> is either the server's JSON
  or the wrapper \<^verbatim>\<open>{ underlyingError: error }\<close> around a thrown value.
\<close>

record 'n IQueryResult =
  data :: "json option"
  errors :: "json option"
  networkError :: bool
  size_result :: 'n
  extensions :: "extensions_value option"

text \<open>The test \<^verbatim>\<open>data.errors && data.errors.length\<close>.\<close>

definition has_errors :: "'n IQueryResult \<Rightarrow> bool" where
  "has_errors d =
     (case errors d of
        None \<Rightarrow> False
      | Some e \<Rightarrow>
          js_truthy e \<and> (case js_length e of None \<Rightarrow> False | Some l \<Rightarrow> js_truthy l))"

section \<open>The cache store\<close>

datatype cache_mode = NoCache | CacheFirst | CacheAndNetwork

text \<open>
  \<^verbatim>\<open>ICacheEntry\<close> together with its response cell (\<^verbatim>\<open>response.result\<close>,
  \<^verbatim>\<open>response.resultPromise\<close>, \<^verbatim>\<open>response.loading\<close>) and the variables its closures
  capture from the \<^verbatim>\<open>executeQuery\<close> call that created it (\<^verbatim>\<open>cacheMode\<close>,
  \<^verbatim>\<open>cacheTimeoutValue\<close>).  Subscriber callbacks, promises and abort handles are
  compared by identity in the source and are natural numbers here; \<^verbatim>\<open>null\<close> and
  \<^verbatim>\<open>undefined\<close> are \<^term>\<open>None\<close>.
\<close>

record entry =
  queryAndVariablesString :: string
  size_entry :: int
  expires :: int
  lastUsed :: int
  subscribers :: "nat list"
  cancelRequest :: "nat option"
  result :: "int IQueryResult option"
  resultPromise :: "nat option"
  loading :: bool
  cacheMode :: cache_mode
  cacheTimeoutValue :: int

text \<open>
  The client.  Entries are objects with identity: \<^term>\<open>heap\<close> maps a reference to the
  entry's current fields, \<^term>\<open>nextRef\<close> is the next unused reference.  An entry that
  was evicted stays in the heap, since a pending completion or a consumer may still hold
  it.  \<^term>\<open>cache\<close> is the \<^verbatim>\<open>Map\<close> in insertion order; every entry is registered
  under its own \<^verbatim>\<open>queryAndVariablesString\<close>, so the map is the list of its values
  and the key of a value is read from the entry.  \<^term>\<open>dispatched\<close>, \<^term>\<open>cancelled\<close>
  and \<^term>\<open>delivered\<close> record the calls that leave the client: transport requests
  started by \<^verbatim>\<open>executeQueryRaw\<close> (promise and request), abort handles invoked, and
  subscriber callbacks invoked with their argument.
\<close>

record client =
  heap :: "nat \<Rightarrow> entry"
  nextRef :: nat
  cache :: "nat list"
  cacheSize :: int
  maxCacheSize :: int
  pendingRequests :: int
  nextPromise :: nat
  dispatched :: "(nat \<times> string) list"
  cancelled :: "nat list"
  delivered :: "(nat \<times> int IQueryResult option) list"
  defaultCachePolicy :: cache_mode
  defaultCacheTime :: int

definition key_of :: "client \<Rightarrow> nat \<Rightarrow> string" where
  "key_of s r = queryAndVariablesString (heap s r)"

text \<open>\<^verbatim>\<open>this.cache.get(key)\<close>, \<^verbatim>\<open>this.cache.has(key)\<close>.\<close>

definition cache_get :: "client \<Rightarrow> string \<Rightarrow> nat option" where
  "cache_get s k = find (\<lambda>r. key_of s r = k) (cache s)"

definition cache_has :: "client \<Rightarrow> string \<Rightarrow> bool" where
  "cache_has s k = (k \<in> set (map (key_of s) (cache s)))"

text \<open>\<^verbatim>\<open>if (this.cache.delete(e.queryAndVariablesString)) this.cacheSize -= e.size\<close>.\<close>

definition evict :: "nat \<Rightarrow> client \<Rightarrow> client" where
  "evict r s =
     (if cache_has s (key_of s r)
      then s\<lparr>cache := filter (\<lambda>r'. key_of s r' \<noteq> key_of s r) (cache s),
             cacheSize := cacheSize s - size_entry (heap s r)\<rparr>
      else s)"

text \<open>The first \<^verbatim>\<open>forEach\<close> of \<^verbatim>\<open>allocateCacheSize\<close>: collect the expired idle entries.\<close>

definition entriesToRemove :: "int \<Rightarrow> client \<Rightarrow> nat list" where
  "entriesToRemove nowDate s =
     filter (\<lambda>r. subscribers (heap s r) = [] \<and> expires (heap s r) < nowDate) (cache s)"

text \<open>
  The \<^verbatim>\<open>forEach\<close> inside the \<^verbatim>\<open>do\<close> loop: \<^term>\<open>acc\<close> is \<^verbatim>\<open>oldestEntry\<close>.
\<close>

fun oldestEntry :: "(nat \<Rightarrow> entry) \<Rightarrow> nat option \<Rightarrow> nat list \<Rightarrow> nat option \<Rightarrow> nat option" where
  "oldestEntry h exclude [] acc = acc"
| "oldestEntry h exclude (r # rs) acc =
     oldestEntry h exclude rs
       (if subscribers (h r) = [] \<and> Some r \<noteq> exclude
        then (case acc of
                None \<Rightarrow> Some r
              | Some ol \<Rightarrow> if lastUsed (h r) < lastUsed (h ol) then Some r else acc)
        else acc)"

definition needBytes :: "client \<Rightarrow> int \<Rightarrow> int" where
  "needBytes s newSize = cacheSize s + newSize - maxCacheSize s"

function evictOldest :: "int \<Rightarrow> nat option \<Rightarrow> client \<Rightarrow> client" where
  "evictOldest newSize exclude s =
     (if needBytes s newSize \<le> 0 then s
      else (case oldestEntry (heap s) exclude (cache s) None of
              None \<Rightarrow> s
            | Some r \<Rightarrow> evictOldest newSize exclude (evict r s)))"
  by pat_completeness auto

lemma oldestEntry_mem:
  "oldestEntry h exclude rs acc = Some r \<Longrightarrow> r \<in> set rs \<or> acc = Some r"
  by (induction rs arbitrary: acc) (fastforce split: if_splits option.splits)+

lemma evict_shrinks:
  assumes "r \<in> set (cache s)"
  shows "length (cache (evict r s)) < length (cache s)"
proof -
  have has: "cache_has s (key_of s r)"
    using assms by (auto simp: cache_has_def)
  have "length (filter (\<lambda>r'. key_of s r' \<noteq> key_of s r) (cache s)) < length (cache s)"
    using assms by (intro length_filter_less[of r]) auto
  with has show ?thesis by (simp add: evict_def)
qed

termination evictOldest
proof (relation "measure (\<lambda>(newSize, exclude, s). length (cache s))")
  show "wf (measure (\<lambda>(newSize, exclude, s). length (cache s)))" by simp
next
  fix newSize :: int and exclude :: "nat option" and s :: client and r :: nat
  assume "oldestEntry (heap s) exclude (cache s) None = Some r"
  then have "r \<in> set (cache s)"
    using oldestEntry_mem by fastforce
  then show "((newSize, exclude, evict r s), (newSize, exclude, s))
      \<in> measure (\<lambda>(newSize, exclude, s). length (cache s))"
    by (simp add: evict_shrinks)
qed

declare evictOldest.simps [simp del]

definition allocateCacheSize :: "int \<Rightarrow> nat option \<Rightarrow> int \<Rightarrow> client \<Rightarrow> client" where
  "allocateCacheSize newSize exclude nowDate s =
     (if needBytes s newSize \<le> 0 then s
      else evictOldest newSize exclude (foldl (\<lambda>t r. evict r t) s (entriesToRemove nowDate s)))"

text \<open>In-place mutation of the entry behind a reference.\<close>

definition update_entry :: "nat \<Rightarrow> (entry \<Rightarrow> entry) \<Rightarrow> client \<Rightarrow> client" where
  "update_entry r f s = s\<lparr>heap := (heap s)(r := f (heap s r))\<rparr>"

text \<open>
  \<^verbatim>\<open>setCacheEntrySize(cacheEntry, newSize)\<close>.  One clock reading \<^term>\<open>now\<close> serves a
  whole synchronous run of the client.
\<close>

definition setCacheEntrySize :: "nat \<Rightarrow> int \<Rightarrow> int \<Rightarrow> client \<Rightarrow> client" where
  "setCacheEntrySize cacheEntry newSize now s =
     update_entry cacheEntry (\<lambda>e. e\<lparr>size_entry := newSize\<rparr>)
       (if cache_get s (key_of s cacheEntry) = Some cacheEntry
        then (let s1 = s\<lparr>cacheSize := cacheSize s - size_entry (heap s cacheEntry)\<rparr>;
                  s2 = allocateCacheSize newSize (Some cacheEntry) now s1
              in s2\<lparr>cacheSize := cacheSize s2 + size_entry (heap s2 cacheEntry)\<rparr>)
        else s)"

text \<open>
  The synchronous part of \<^verbatim>\<open>executeQueryRaw\<close>: count the request as pending and hand
  out a fresh promise (with its abort handle).  The request is identified by its
  serialisation.
\<close>

definition executeQueryRaw_start :: "string \<Rightarrow> client \<Rightarrow> nat \<times> client" where
  "executeQueryRaw_start request s =
     (nextPromise s,
      s\<lparr>pendingRequests := pendingRequests s + 1,
        nextPromise := Suc (nextPromise s),
        dispatched := dispatched s @ [(nextPromise s, request)]\<rparr>)"

text \<open>\<^verbatim>\<open>response.refresh()\<close>: the returned promise and the new client.\<close>

definition refresh :: "nat \<Rightarrow> client \<Rightarrow> nat option \<times> client" where
  "refresh r s =
     (if loading (heap s r) then (resultPromise (heap s r), s)
      else (let (p, s1) = executeQueryRaw_start (key_of s r) s
            in (Some p,
                update_entry r
                  (\<lambda>e. e\<lparr>loading := True, resultPromise := Some p, cancelRequest := Some p\<rparr>)
                  s1)))"

text \<open>
  The continuation \<^verbatim>\<open>exec.result.then((data) => ...)\<close> that \<^verbatim>\<open>refresh\<close> attaches to
  the promise \<^term>\<open>p\<close> of its attempt, run when that promise resolves with \<^term>\<open>d\<close>.
  Subscriber callbacks are recorded, not run.
\<close>

definition notify :: "nat \<Rightarrow> int IQueryResult option \<Rightarrow> client \<Rightarrow> client" where
  "notify r d s = s\<lparr>delivered := delivered s @ map (\<lambda>cb. (cb, d)) (subscribers (heap s r))\<rparr>"

definition refresh_resolved :: "nat \<Rightarrow> nat \<Rightarrow> int IQueryResult \<Rightarrow> int \<Rightarrow> client \<Rightarrow> client" where
  "refresh_resolved r p d now s =
     (if resultPromise (heap s r) = Some p
      then (let s1 = update_entry r
                       (\<lambda>e. e\<lparr>result := Some d, loading := False, cancelRequest := None\<rparr>) s;
                s2 = (if has_errors d
                      then update_entry r (\<lambda>e. e\<lparr>expires := 0\<rparr>) s1
                      else (let s3 = setCacheEntrySize r (size_result d + 1000) now s1
                            in if cacheMode (heap s3 r) \<noteq> NoCache
                               then update_entry r
                                      (\<lambda>e. e\<lparr>expires := now + cacheTimeoutValue e\<rparr>) s3
                               else s3))
            in notify r (Some d) s2)
      else s)"

text \<open>\<^verbatim>\<open>response.forceRefresh()\<close>, \<^verbatim>\<open>response.clearAndRefresh()\<close>, \<^verbatim>\<open>response.subscribe\<close>.\<close>

definition forceRefresh :: "nat \<Rightarrow> client \<Rightarrow> client" where
  "forceRefresh r s =
     snd (refresh r
       (if loading (heap s r)
        then update_entry r
               (\<lambda>e. e\<lparr>cancelRequest := None, loading := False, resultPromise := None\<rparr>)
               (case cancelRequest (heap s r) of
                  Some p \<Rightarrow> s\<lparr>cancelled := cancelled s @ [p]\<rparr>
                | None \<Rightarrow> s)
        else s))"

definition clearAndRefresh :: "nat \<Rightarrow> client \<Rightarrow> client" where
  "clearAndRefresh r s =
     (let s1 = forceRefresh r s
      in if result (heap s1 r) \<noteq> None
         then notify r None (update_entry r (\<lambda>e. e\<lparr>result := None\<rparr>) s1)
         else s1)"

definition subscribe :: "nat \<Rightarrow> nat \<Rightarrow> client \<Rightarrow> client" where
  "subscribe r callback s = update_entry r (\<lambda>e. e\<lparr>subscribers := subscribers e @ [callback]\<rparr>) s"

definition unsubscribe :: "nat \<Rightarrow> nat \<Rightarrow> client \<Rightarrow> client" where
  "unsubscribe r callback s =
     update_entry r (\<lambda>e. e\<lparr>subscribers := filter (\<lambda>x. x \<noteq> callback) (subscribers e)\<rparr>) s"

text \<open>
  \<^verbatim>\<open>newEntryFactory\<close> of \<^verbatim>\<open>executeQuery\<close>: wire the response cell of the new entry
  (its fields start as \<^verbatim>\<open>result: null, resultPromise: null, loading: false\<close>) and
  start the first request.
\<close>

definition newEntryFactory :: "cache_mode \<Rightarrow> int \<Rightarrow> nat \<Rightarrow> client \<Rightarrow> client" where
  "newEntryFactory mode timeout newEntry s =
     snd (refresh newEntry
       (update_entry newEntry
          (\<lambda>e. e\<lparr>result := None, resultPromise := None, loading := False,
                 cacheMode := mode, cacheTimeoutValue := timeout\<rparr>) s))"

text \<open>\<^verbatim>\<open>this.cache.set(key, entry)\<close> for an entry whose own key is \<^term>\<open>k\<close>.\<close>

definition cache_set :: "string \<Rightarrow> nat \<Rightarrow> client \<Rightarrow> client" where
  "cache_set k r s =
     (if cache_has s k
      then s\<lparr>cache := map (\<lambda>r'. if key_of s r' = k then r else r') (cache s)\<rparr>
      else s\<lparr>cache := cache s @ [r]\<rparr>)"

text \<open>
  \<^verbatim>\<open>getOrCreateCacheEntry\<close>: the entry returned and the new client.  The new entry
  starts as the object literal of the source; its response cell and the captured
  \<^verbatim>\<open>cacheMode\<close> and \<^verbatim>\<open>cacheTimeoutValue\<close> are the factory's to set.
\<close>

definition createCacheEntry ::
  "string \<Rightarrow> (nat \<Rightarrow> client \<Rightarrow> client) \<Rightarrow> int \<Rightarrow> client \<Rightarrow> nat \<times> client" where
  "createCacheEntry k factory nowDate s =
     (let newEntry = nextRef s;
          s1 = s\<lparr>heap := (heap s)(newEntry :=
                   \<lparr>queryAndVariablesString = k, size_entry = 1000, expires = 0,
                    lastUsed = nowDate, subscribers = [], cancelRequest = None,
                    result = None, resultPromise = None, loading = False,
                    cacheMode = CacheFirst, cacheTimeoutValue = 0\<rparr>),
                 nextRef := Suc (nextRef s)\<rparr>;
          s2 = factory newEntry s1;
          s3 = allocateCacheSize (size_entry (heap s2 newEntry)) None nowDate s2;
          s4 = update_entry newEntry
                 (\<lambda>e. e\<lparr>queryAndVariablesString := k, lastUsed := nowDate\<rparr>) s3;
          s5 = s4\<lparr>cacheSize := cacheSize s4 + size_entry (heap s4 newEntry)\<rparr>
      in (newEntry, cache_set k newEntry s5))"

definition getOrCreateCacheEntry ::
  "string \<Rightarrow> (nat \<Rightarrow> client \<Rightarrow> client) \<Rightarrow> bool \<Rightarrow> int \<Rightarrow> client \<Rightarrow> nat \<times> client" where
  "getOrCreateCacheEntry k factory noCache nowDate s =
     (case cache_get s k of
        Some valueFromCache \<Rightarrow>
          if subscribers (heap s valueFromCache) \<noteq> [] \<or> \<not> noCache
          then (valueFromCache, update_entry valueFromCache (\<lambda>e. e\<lparr>lastUsed := nowDate\<rparr>) s)
          else createCacheEntry k factory nowDate
                 (s\<lparr>cache := filter (\<lambda>r'. key_of s r' \<noteq> k) (cache s),
                    cacheSize := cacheSize s - size_entry (heap s valueFromCache)\<rparr>)
      | None \<Rightarrow> createCacheEntry k factory nowDate s)"

text \<open>
  \<^verbatim>\<open>executeQuery(request, cacheMode?, cacheTimeout?)\<close>; \<^term>\<open>request\<close> is
  \<^verbatim>\<open>JSON.stringify(request)\<close>.  The result is the entry whose response cell is returned.
\<close>

definition executeQuery ::
  "string \<Rightarrow> cache_mode option \<Rightarrow> int option \<Rightarrow> int \<Rightarrow> client \<Rightarrow> nat \<times> client" where
  "executeQuery request mode timeout now s =
     (let cacheMode' = (case mode of None \<Rightarrow> defaultCachePolicy s | Some m \<Rightarrow> m);
          cacheTimeoutValue' = (case timeout of None \<Rightarrow> defaultCacheTime s | Some t \<Rightarrow> t);
          (newEntry, s1) = getOrCreateCacheEntry request
                             (newEntryFactory cacheMode' cacheTimeoutValue')
                             (cacheMode' = NoCache) now s
      in (newEntry,
          if subscribers (heap s1 newEntry) = [] \<and>
             (cacheMode' = CacheAndNetwork \<or> expires (heap s1 newEntry) < now)
          then snd (refresh newEntry s1)
          else s1))"

text \<open>\<^verbatim>\<open>clearCache\<close>, \<^verbatim>\<open>refreshAll\<close>, \<^verbatim>\<open>resetStore\<close>.\<close>

definition clearCache :: "int \<Rightarrow> client \<Rightarrow> client" where
  "clearCache now s =
     (let s1 = foldl (\<lambda>t r. update_entry r (\<lambda>e. e\<lparr>expires := 0\<rparr>) t) s (cache s)
      in allocateCacheSize (maxCacheSize s1) None now s1)"

definition refreshAll :: "bool \<Rightarrow> int \<Rightarrow> client \<Rightarrow> client" where
  "refreshAll force now s =
     (let s1 = clearCache now s
      in foldl (\<lambda>t r. if subscribers (heap t r) \<noteq> []
                       then (if force then forceRefresh r t else snd (refresh r t))
                       else t) s1 (cache s1))"

definition resetStore :: "int \<Rightarrow> client \<Rightarrow> client" where
  "resetStore now s =
     (let s1 = clearCache now s in foldl (\<lambda>t r. clearAndRefresh r t) s1 (cache s1))"

text \<open>
  The client a constructor call leaves behind; the arguments are the configured values
  with the constructor's defaults already applied.
\<close>

definition newClient :: "int \<Rightarrow> cache_mode \<Rightarrow> int \<Rightarrow> client" where
  "newClient maxSize policy cacheTime =
     \<lparr>heap = (\<lambda>r. \<lparr>queryAndVariablesString = [], size_entry = 0, expires = 0, lastUsed = 0,
                    subscribers = [], cancelRequest = None, result = None,
                    resultPromise = None, loading = False, cacheMode = policy,
                    cacheTimeoutValue = cacheTime\<rparr>),
      nextRef = 0, cache = [], cacheSize = 0, maxCacheSize = maxSize, pendingRequests = 0,
      nextPromise = 0, dispatched = [], cancelled = [], delivered = [],
      defaultCachePolicy = policy, defaultCacheTime = cacheTime\<rparr>"

section \<open>The query executor\<close>

text \<open>A settled promise.\<close>

datatype 'a settled = Resolved 'a | Rejected js_error

text \<open>
  A JavaScript number as far as sizes need it: an integer of magnitude at most
  \<open>2\<^sup>5\<^sup>3\<close>, \<^verbatim>\<open>NaN\<close>, or a number that the model does not compute
  (\<^term>\<open>Untracked\<close>): one beyond that range, where a double rounds, or the length of
  a serialisation that holds such a number or a fraction.
\<close>

datatype js_number = Num int | NaN | Untracked

definition exact_limit :: int where
  "exact_limit = 9007199254740992"

text \<open>
  A \<^verbatim>\<open>TypeError\<close> raised by the engine (reading a property of \<^verbatim>\<open>null\<close> or
  \<^verbatim>\<open>undefined\<close>, assigning a property on a primitive in strict code).  Its message text
  is the engine's own; a fixed text stands for it.
\<close>

definition TypeError :: js_error where
  "TypeError = ErrObject (Some ''TypeError'')"

text \<open>
  The response as the handler reads it: \<^verbatim>\<open>status\<close>, \<^verbatim>\<open>statusText\<close>,
  \<^verbatim>\<open>headers.get("Content-Type")\<close>, \<^verbatim>\<open>headers.get("Content-Length")\<close> (\<^term>\<open>None\<close> for
  \<^verbatim>\<open>null\<close>) and what \<^verbatim>\<open>json()\<close> settles with.
\<close>

record http_response =
  status :: int
  statusText :: string
  contentType :: "string option"
  contentLength :: "string option"
  json_body :: "json settled"

text \<open>
  The request handed to \<^verbatim>\<open>fetch\<close> matters only by identity.  The configuration:
  \<^verbatim>\<open>validateResponseContentType\<close>; \<^verbatim>\<open>transformRequest\<close>, which settles with a request or
  fails; \<^verbatim>\<open>logHttpError\<close>, which returns (\<^term>\<open>None\<close>) or throws.  An undefined hook is
  \<^term>\<open>None\<close>.  The platform: whether \<^verbatim>\<open>new Request\<close> throws, and what \<^verbatim>\<open>fetch\<close>
  settles with.
\<close>

type_synonym IRequest = string

record configuration =
  validateResponseContentType :: bool
  transformRequest :: "(IRequest \<Rightarrow> IRequest settled) option"
  logHttpError :: "(IRequest \<Rightarrow> http_response \<Rightarrow> js_error option) option"

record platform =
  newRequest :: "IRequest \<Rightarrow> js_error option"
  fetch :: "IRequest \<Rightarrow> http_response settled"

subsection \<open>Strings\<close>

definition js_whitespace :: "char \<Rightarrow> bool" where
  "js_whitespace c = (of_char c \<in> {9, 10, 11, 12, 13, 32, 160 :: nat})"

definition js_trim :: "string \<Rightarrow> string" where
  "js_trim s = rev (dropWhile js_whitespace (rev (dropWhile js_whitespace s)))"

definition js_lower_char :: "char \<Rightarrow> char" where
  "js_lower_char c =
     (let n = of_char c :: nat
      in if (65 \<le> n \<and> n \<le> 90) \<or> (192 \<le> n \<and> n \<le> 222 \<and> n \<noteq> 215)
         then char_of (n + 32) else c)"

definition js_toLowerCase :: "string \<Rightarrow> string" where
  "js_toLowerCase s = map js_lower_char s"

text \<open>
  \<^verbatim>\<open>parseInt(s, 10)\<close>: white space, a sign, then the longest run of digits.  The
  result is a double, which is the number the digits denote as long as that is at most
  \<open>2\<^sup>5\<^sup>3\<close>.
\<close>

definition is_digit :: "char \<Rightarrow> bool" where
  "is_digit c = (48 \<le> (of_char c :: nat) \<and> (of_char c :: nat) \<le> 57)"

definition digit_value :: "char \<Rightarrow> int" where
  "digit_value c = int (of_char c) - 48"

definition digits_value :: "string \<Rightarrow> int" where
  "digits_value ds = foldl (\<lambda>acc c. 10 * acc + digit_value c) 0 ds"

definition parseInt10 :: "string \<Rightarrow> js_number" where
  "parseInt10 s =
     (let t = dropWhile js_whitespace s;
          (neg, u) = (case t of
                        c # cs \<Rightarrow> if c = CHR ''-'' then (True, cs)
                                  else if c = CHR ''+'' then (False, cs) else (False, t)
                      | [] \<Rightarrow> (False, t));
          ds = takeWhile is_digit u
      in if ds = [] then NaN
         else if digits_value ds \<le> exact_limit
         then Num (if neg then - digits_value ds else digits_value ds)
         else Untracked)"

text \<open>
  \<^verbatim>\<open>JSON.stringify\<close> on JSON values.  An integer of magnitude at most \<open>2\<^sup>5\<^sup>3\<close>
  is printed in full; the text of any other number (a fraction, an exponent form) is not
  computed, and then the result is \<^term>\<open>None\<close>.
\<close>

definition hex_digit :: "nat \<Rightarrow> char" where
  "hex_digit n = (if n < 10 then char_of (48 + n) else char_of (87 + n))"

definition json_escape :: "char \<Rightarrow> string" where
  "json_escape c =
     (let n = of_char c :: nat
      in if c = CHR 0x22 then [CHR 0x5C, CHR 0x22]
         else if c = CHR 0x5C then [CHR 0x5C, CHR 0x5C]
         else if n = 8 then [CHR 0x5C, CHR ''b'']
         else if n = 9 then [CHR 0x5C, CHR ''t'']
         else if n = 10 then [CHR 0x5C, CHR ''n'']
         else if n = 12 then [CHR 0x5C, CHR ''f'']
         else if n = 13 then [CHR 0x5C, CHR ''r'']
         else if n < 32 then [CHR 0x5C, CHR ''u'', CHR ''0'', CHR ''0'',
                              hex_digit (n div 16), hex_digit (n mod 16)]
         else [c])"

definition json_quote :: "string \<Rightarrow> string" where
  "json_quote s = CHR 0x22 # concat (map json_escape s) @ [CHR 0x22]"

fun show_nat :: "nat \<Rightarrow> string" where
  "show_nat n = (if n < 10 then [char_of (48 + n)]
                 else show_nat (n div 10) @ [char_of (48 + n mod 10)])"

declare show_nat.simps [simp del]

definition show_int :: "int \<Rightarrow> string" where
  "show_int i = (if i < 0 then CHR ''-'' # show_nat (nat (- i)) else show_nat (nat i))"

fun commas :: "string list \<Rightarrow> string" where
  "commas [] = []"
| "commas [x] = x"
| "commas (x # y # ys) = x @ CHR '','' # commas (y # ys)"

fun JSON_stringify :: "json \<Rightarrow> string option" where
  "JSON_stringify JNull = Some ''null''"
| "JSON_stringify (JBool b) = Some (if b then ''true'' else ''false'')"
| "JSON_stringify (JNum n) =
     (if - exact_limit \<le> n \<and> n \<le> exact_limit then Some (show_int n) else None)"
| "JSON_stringify JOtherNumber = None"
| "JSON_stringify (JStr s) = Some (json_quote s)"
| "JSON_stringify (JArr xs) =
     map_option (\<lambda>parts. CHR ''['' # commas parts @ '']'') (those (map JSON_stringify xs))"
| "JSON_stringify (JObj fs) =
     map_option (\<lambda>parts. CHR ''{'' # commas parts @ ''}'')
       (those (map (\<lambda>kv. map_option (\<lambda>v. json_quote (fst kv) @ CHR '':'' # v)
                                (JSON_stringify (snd kv))) fs))"

subsection \<open>The response handler\<close>

definition network_error_result :: "string \<Rightarrow> js_error option \<Rightarrow> js_number IQueryResult" where
  "network_error_result msg underlyingError =
     \<lparr>data = None, errors = Some (JArr [JObj [(''message'', JStr msg)]]), networkError = True,
      size_result = Num 1000, extensions = map_option ExtUnderlyingError underlyingError\<rparr>"

text \<open>\<^verbatim>\<open>data.headers.get("Content-Type")?.split(";")[0].trim().toLowerCase()\<close>.\<close>

definition response_contentType :: "http_response \<Rightarrow> string option" where
  "response_contentType resp =
     map_option (\<lambda>h. js_toLowerCase (js_trim (takeWhile (\<lambda>c. c \<noteq> CHR '';'') h)))
       (contentType resp)"

definition valid_response :: "bool \<Rightarrow> http_response \<Rightarrow> bool" where
  "valid_response validate resp =
     (if validate
      then (let ct = response_contentType resp
            in (200 \<le> status resp \<and> status resp < 300 \<and>
                (ct = Some ''application/graphql-response+json'' \<or> ct = Some ''application/json'')) \<or>
               (400 \<le> status resp \<and> status resp < 500 \<and>
                ct = Some ''application/graphql-response+json''))
      else (200 \<le> status resp \<and> status resp < 300) \<or>
           (400 \<le> status resp \<and> status resp < 500))"

text \<open>
  Property assignment \<^verbatim>\<open>o.k = v\<close> on the property list of an object, and the test
  \<^verbatim>\<open>queryRet.errors && queryRet.errors.length\<close> on the parsed object.
\<close>

definition obj_set :: "string \<Rightarrow> json \<Rightarrow> (string \<times> json) list \<Rightarrow> (string \<times> json) list" where
  "obj_set k v fs =
     (if k \<in> set (map fst fs) then map (\<lambda>kv. if fst kv = k then (k, v) else kv) fs
      else fs @ [(k, v)])"

definition errors_present :: "(string \<times> json) list \<Rightarrow> bool" where
  "errors_present fs =
     (case map_of fs ''errors'' of
        None \<Rightarrow> False
      | Some e \<Rightarrow>
          js_truthy e \<and> (case js_length e of None \<Rightarrow> False | Some l \<Rightarrow> js_truthy l))"

text \<open>
  The properties \<^verbatim>\<open>JSON.stringify(jsonData)\<close> sees: \<^verbatim>\<open>queryRet\<close> is \<^verbatim>\<open>jsonData\<close> itself,
  so by then \<^verbatim>\<open>data\<close> may have been set to \<^verbatim>\<open>undefined\<close> (which \<^verbatim>\<open>stringify\<close> skips)
  and \<^verbatim>\<open>networkError\<close> has been set.
\<close>

definition result_object :: "(string \<times> json) list \<Rightarrow> (string \<times> json) list" where
  "result_object fs =
     obj_set ''networkError'' (JBool False)
       (if errors_present fs then filter (\<lambda>kv. fst kv \<noteq> ''data'') fs else fs)"

definition stringify_length :: "json \<Rightarrow> js_number" where
  "stringify_length v =
     (case JSON_stringify v of Some text \<Rightarrow> Num (int (length text)) | None \<Rightarrow> Untracked)"

definition response_size :: "http_response \<Rightarrow> json \<Rightarrow> js_number" where
  "response_size resp serialised =
     (case contentLength resp of
        Some contentLengthHeader \<Rightarrow>
          if contentLengthHeader \<noteq> [] then parseInt10 contentLengthHeader
          else stringify_length serialised
      | None \<Rightarrow> stringify_length serialised)"

text \<open>
  The continuation of \<^verbatim>\<open>data.json()\<close>.  On \<^verbatim>\<open>null\<close> reading \<^verbatim>\<open>errors\<close> throws; on a
  number, string or boolean the assignment of \<^verbatim>\<open>networkError\<close> throws (module code is
  strict); an array takes the assignments as extra properties, which \<^verbatim>\<open>stringify\<close>
  ignores.
\<close>

definition json_result :: "http_response \<Rightarrow> json \<Rightarrow> js_number IQueryResult settled" where
  "json_result resp jsonData =
     (case jsonData of
        JObj fs \<Rightarrow>
          Resolved
            \<lparr>data = (if errors_present fs then None else map_of fs ''data''),
             errors = map_of fs ''errors'', networkError = False,
             size_result = response_size resp (JObj (result_object fs)),
             extensions = map_option ExtJson (map_of fs ''extensions'')\<rparr>
      | JArr xs \<Rightarrow>
          Resolved
            \<lparr>data = None, errors = None, networkError = False,
             size_result = response_size resp (JArr xs), extensions = None\<rparr>
      | _ \<Rightarrow> Rejected TypeError)"

definition onResponse ::
  "configuration \<Rightarrow> IRequest \<Rightarrow> http_response \<Rightarrow> js_number IQueryResult settled" where
  "onResponse cfg request resp =
     (case (case logHttpError cfg of
              Some hook \<Rightarrow>
                if status resp < 200 \<or> status resp \<ge> 300 then hook request resp else None
            | None \<Rightarrow> None) of
        Some thrown \<Rightarrow> Rejected thrown
      | None \<Rightarrow>
          if \<not> valid_response (validateResponseContentType cfg) resp
          then Resolved (network_error_result (statusText resp) None)
          else (case json_body resp of
                  Rejected e \<Rightarrow> Rejected e
                | Resolved jsonData \<Rightarrow> json_result resp jsonData))"

text \<open>
  The \<^verbatim>\<open>.catch\<close> after \<^verbatim>\<open>fetch\<close>.  A thrown primitive other than a string has no
  \<^verbatim>\<open>message\<close> and counts as \<^term>\<open>ErrObject None\<close>; reading \<^verbatim>\<open>message\<close> of \<^verbatim>\<open>null\<close> or
  \<^verbatim>\<open>undefined\<close> throws inside the handler, and the promise it returns rejects.
\<close>

definition fetch_catch :: "js_error \<Rightarrow> js_number IQueryResult settled" where
  "fetch_catch error =
     (case error of
        ErrString s \<Rightarrow> Resolved (network_error_result s (Some error))
      | ErrNull \<Rightarrow> Rejected TypeError
      | ErrUndefined \<Rightarrow> Rejected TypeError
      | ErrObject m \<Rightarrow>
          Resolved (network_error_result
            (case m of
               Some msg \<Rightarrow> if msg \<noteq> [] then msg else ''Unknown error from Fetch API''
             | None \<Rightarrow> ''Unknown error from Fetch API'')
            (Some error)))"

text \<open>The rejection handler for the request configuration.\<close>

definition config_catch :: "js_error \<Rightarrow> js_number IQueryResult" where
  "config_catch error =
     network_error_result
       (case error of ErrString s \<Rightarrow> s | _ \<Rightarrow> ''Error initializing request configuration'')
       (Some error)"

text \<open>
  The promise chain of \<^verbatim>\<open>executeQueryRaw\<close> once every collaborator has settled: what
  \<^verbatim>\<open>result\<close> settles with, and the client with the counter as the handlers leave it.
\<close>

definition requestCompleted :: "client \<Rightarrow> client" where
  "requestCompleted s = s\<lparr>pendingRequests := pendingRequests s - 1\<rparr>"

definition executeQueryRaw_settle ::
  "configuration \<Rightarrow> platform \<Rightarrow> IRequest \<Rightarrow> client \<Rightarrow> js_number IQueryResult settled \<times> client" where
  "executeQueryRaw_settle cfg pf config s =
     (case (case transformRequest cfg of Some f \<Rightarrow> f config | None \<Rightarrow> Resolved config) of
        Rejected e \<Rightarrow> (Resolved (config_catch e), requestCompleted s)
      | Resolved config2 \<Rightarrow>
          (case newRequest pf config2 of
             Some e \<Rightarrow> (Resolved (config_catch e), requestCompleted s)
           | None \<Rightarrow>
               (case fetch pf config2 of
                  Resolved resp \<Rightarrow>
                    (case onResponse cfg config2 resp of
                       Rejected e \<Rightarrow> (fetch_catch e, requestCompleted s)
                     | Resolved r \<Rightarrow> (Resolved r, requestCompleted s))
                | Rejected e \<Rightarrow> (fetch_catch e, requestCompleted s))))"

text \<open>
  Runs of the executor: the client together with the promises handed out and not yet
  settled.  A promise settles once, so only an outstanding one can complete.
\<close>

inductive executor_run :: "configuration \<Rightarrow> client \<Rightarrow> nat set \<Rightarrow> bool" for cfg where
  created: "executor_run cfg (newClient maxSize policy cacheTime) {}"
| dispatch: "executor_run cfg s outstanding \<Longrightarrow>
     executor_run cfg (snd (executeQueryRaw_start request s))
       (insert (fst (executeQueryRaw_start request s)) outstanding)"
| settle: "executor_run cfg s outstanding \<Longrightarrow> p \<in> outstanding \<Longrightarrow>
     executor_run cfg (snd (executeQueryRaw_settle cfg pf config s)) (outstanding - {p})"

section \<open>The subscription engine\<close>

datatype CloseReason = Client | Server | ServerError | Timeout | Error

datatype machine_state = Opening | Connected

datatype promise_state = Pending | Fulfilled | Failed

text \<open>
  The messages the engine sends (\<^verbatim>\<open>ClientMsg\<close>): \<^verbatim>\<open>connection_init\<close> and \<^verbatim>\<open>pong\<close> with
  their payload, \<^verbatim>\<open>subscribe\<close> with its id and the operation.  The hooks of the timeout
  handler are recorded as they are called.
\<close>

datatype client_msg =
    Connection_init "json option"
  | Pong "json option"
  | Subscribe string string

datatype hook_call =
    HookOpen
  | HookOutbound client_msg
  | HookInbound json
  | HookAck
  | HookClose CloseReason

text \<open>
  The platform's \<^verbatim>\<open>WebSocket\<close>: \<^verbatim>\<open>readyState\<close> (0 connecting, 1 open, 2 closing,
  3 closed), the code of the close it has started, and the frames sent.
  \<^verbatim>\<open>close(code)\<close> does nothing on a socket that is closing or closed and otherwise
  starts the close and sets \<^verbatim>\<open>readyState\<close> to 2.
\<close>

record websocket =
  readyState :: nat
  closeCode :: "nat option"
  outbox :: "client_msg list"

definition ws_close :: "nat \<Rightarrow> websocket \<Rightarrow> websocket" where
  "ws_close code ws =
     (if readyState ws = 2 \<or> readyState ws = 3 then ws
      else ws\<lparr>readyState := 2, closeCode := Some code\<rparr>)"

text \<open>
  One \<^verbatim>\<open>executeSubscription\<close> call: its arguments and options (\<^term>\<open>operation\<close>; whether a
  timeout strategy and a connection-error logger are configured; \<^term>\<open>consumes\<close>, the
  messages for which the handler's \<^verbatim>\<open>onInbound\<close> returns \<^verbatim>\<open>false\<close>), its closure
  variables (\<^verbatim>\<open>aborted\<close>, \<^verbatim>\<open>state\<close>, \<^verbatim>\<open>connectionResolved\<close>, \<^verbatim>\<open>timeoutHandler\<close>, the
  socket and the payload once they exist), the client's counter, the \<^verbatim>\<open>connected\<close> promise, and the calls
  made to the caller: \<^verbatim>\<open>onData\<close>, \<^verbatim>\<open>onClose\<close>, \<^verbatim>\<open>options.onOpen\<close>, the handler's hooks
  and the logger.  The hooks only observe: they do not call back into the session while
  they run.
\<close>

record session =
  operation :: string
  timeoutStrategy :: bool
  consumes :: "json \<Rightarrow> bool"
  logWebSocketConnectionError :: bool
  aborted :: bool
  state :: machine_state
  connectionResolved :: bool
  connected :: promise_state
  webSocket :: "websocket option"
  payload :: "json option"
  timeoutHandler :: bool
  activeSubscriptions :: int
  onData :: "int IQueryResult list"
  onClose :: "CloseReason list"
  onOpen :: nat
  hooks :: "hook_call list"
  logged :: "json option list"

definition subscriptionId :: string where
  "subscriptionId = ''1''"

text \<open>The synchronous part of \<^verbatim>\<open>executeSubscription\<close>.\<close>

definition executeSubscription :: "string \<Rightarrow> bool \<Rightarrow> (json \<Rightarrow> bool) \<Rightarrow> bool \<Rightarrow> int \<Rightarrow> session" where
  "executeSubscription request strategy inbound logger active =
     \<lparr>operation = request, timeoutStrategy = strategy, consumes = inbound,
      logWebSocketConnectionError = logger, aborted = False, state = Opening,
      connectionResolved = False, connected = Pending, webSocket = None, payload = None,
      timeoutHandler = False, activeSubscriptions = active + 1, onData = [], onClose = [],
      onOpen = 0, hooks = [], logged = []\<rparr>"

definition call_hook :: "hook_call \<Rightarrow> session \<Rightarrow> session" where
  "call_hook h s = (if timeoutHandler s then s\<lparr>hooks := hooks s @ [h]\<rparr> else s)"

text \<open>
  \<^verbatim>\<open>doAbort\<close> as the variable holds it: the original function, wrapped by the connection
  promise, wrapped again once the socket exists.
\<close>

definition doAbort0 :: "CloseReason \<Rightarrow> session \<Rightarrow> session" where
  "doAbort0 reason s =
     (if \<not> aborted s
      then (let s1 = s\<lparr>aborted := True, activeSubscriptions := activeSubscriptions s - 1\<rparr>;
                s2 = call_hook (HookClose reason) s1
            in s2\<lparr>onClose := onClose s2 @ [reason]\<rparr>)
      else s)"

definition doAbort1 :: "CloseReason \<Rightarrow> session \<Rightarrow> session" where
  "doAbort1 reason s =
     (let s1 = doAbort0 reason s
      in if \<not> connectionResolved s1
         then s1\<lparr>connectionResolved := True, connected := Failed\<rparr>
         else s1)"

definition doAbort :: "CloseReason \<Rightarrow> session \<Rightarrow> session" where
  "doAbort reason s =
     (let s1 = doAbort1 reason s
      in case webSocket s1 of
           None \<Rightarrow> s1
         | Some ws \<Rightarrow>
             if readyState ws \<noteq> 3
             then s1\<lparr>webSocket := Some (ws_close (if reason = Timeout then 4408 else 1000) ws)\<rparr>
             else s1)"

definition doData :: "int IQueryResult \<Rightarrow> session \<Rightarrow> session" where
  "doData d s = (if \<not> aborted s then s\<lparr>onData := onData s @ [d]\<rparr> else s)"

definition error_result :: "js_error \<Rightarrow> int IQueryResult" where
  "error_result error =
     \<lparr>data = None,
      errors = Some (JArr [JObj [(''message'',
                 JStr (case error of ErrString m \<Rightarrow> m
                       | _ \<Rightarrow> ''Error generating websocket connection payload''))]]),
      networkError = True, size_result = 1000,
      extensions = Some (ExtUnderlyingError error)\<rparr>"

definition doError :: "js_error \<Rightarrow> session \<Rightarrow> session" where
  "doError error s =
     (if aborted s then s
      else doAbort Error (s\<lparr>onData := onData s @ [error_result error]\<rparr>))"

definition send :: "client_msg \<Rightarrow> session \<Rightarrow> session" where
  "send msg s =
     (case webSocket s of
        None \<Rightarrow> s
      | Some ws \<Rightarrow>
          if \<not> aborted s \<and> readyState ws = 1
          then call_hook (HookOutbound msg) (s\<lparr>webSocket := Some (ws\<lparr>outbox := outbox ws @ [msg]\<rparr>)\<rparr>)
          else s)"

text \<open>
  The payload promise settles: with a payload the socket is created (unless the session
  was aborted meanwhile) and the timeout strategy attached; with an error the session
  closes.
\<close>

definition payload_resolved :: "json option \<Rightarrow> session \<Rightarrow> session" where
  "payload_resolved generated s =
     (if aborted s then s
      else s\<lparr>webSocket := Some \<lparr>readyState = 0, closeCode = None, outbox = []\<rparr>,
             payload := generated, state := Opening, timeoutHandler := timeoutStrategy s\<rparr>)"

definition payload_rejected :: "js_error \<Rightarrow> session \<Rightarrow> session" where
  "payload_rejected error s = doError error s"

text \<open>\<^verbatim>\<open>webSocket.onopen\<close>, \<^verbatim>\<open>webSocket.onclose\<close>.\<close>

definition onopen :: "session \<Rightarrow> session" where
  "onopen s =
     (if aborted s then s else send (Connection_init (payload s)) (call_hook HookOpen s))"

definition log_error :: "json option \<Rightarrow> session \<Rightarrow> session" where
  "log_error received s =
     (if logWebSocketConnectionError s then s\<lparr>logged := logged s @ [received]\<rparr> else s)"

definition onclose :: "session \<Rightarrow> session" where
  "onclose s =
     (if aborted s then s
      else doError (ErrString ''WebSocket connection unexpectedly closed'') (log_error None s))"

text \<open>
  A message event: \<^verbatim>\<open>ev.data\<close> is a string, given with what \<^verbatim>\<open>JSON.parse\<close> makes of it
  (\<^term>\<open>None\<close> when it throws), or it is binary.  Binary data is reported, and
  \<^verbatim>\<open>JSON.parse\<close> then fails on it with the session already aborted.
\<close>

datatype message_data = TextData string "json option" | BinaryData

definition property :: "json \<Rightarrow> string \<Rightarrow> json option" where
  "property v k = (case v of JObj fs \<Rightarrow> map_of fs k | _ \<Rightarrow> None)"

text \<open>\<^verbatim>\<open>!v\<close> for a property that may be absent.\<close>

definition falsy :: "json option \<Rightarrow> bool" where
  "falsy v = (case v of None \<Rightarrow> True | Some x \<Rightarrow> \<not> js_truthy x)"

definition payload_property :: "json \<Rightarrow> string \<Rightarrow> json option" where
  "payload_property message k =
     (case property message ''payload'' of None \<Rightarrow> None | Some p \<Rightarrow> property p k)"

definition dispatch_message :: "string \<Rightarrow> json \<Rightarrow> session \<Rightarrow> session" where
  "dispatch_message raw message s =
     (if property message ''type'' = Some (JStr ''ping'')
      then send (Pong (property message ''payload'')) s
      else if state s = Opening
      then (if property message ''type'' \<noteq> Some (JStr ''connection_ack'')
            then doError (ErrString ''Invalid connection response from WebSocket server'')
                   (log_error (Some message) s)
            else (let s1 = s\<lparr>state := Connected\<rparr>;
                      s2 = (if \<not> connectionResolved s1
                            then s1\<lparr>connectionResolved := True, connected := Fulfilled,
                                    onOpen := onOpen s1 + 1\<rparr>
                            else s1)
                  in send (Subscribe subscriptionId (operation s)) (call_hook HookAck s2)))
      else if property message ''type'' = Some (JStr ''next'')
      then (if falsy (property message ''payload'') \<or>
               (falsy (payload_property message ''data'') \<and>
                falsy (payload_property message ''errors'')) \<or>
               property message ''id'' \<noteq> Some (JStr subscriptionId)
            then doError (ErrString ''Invalid payload for 'next' packet'') s
            else doData \<lparr>data = payload_property message ''data'',
                         errors = payload_property message ''errors'',
                         networkError = False, size_result = int (length raw),
                         extensions = map_option ExtJson (payload_property message ''extensions'')\<rparr> s)
      else if property message ''type'' = Some (JStr ''error'')
      then (if falsy (property message ''payload'') \<or>
               property message ''id'' \<noteq> Some (JStr subscriptionId)
            then doError (ErrString ''Invalid payload for 'error' packet'') s
            else doAbort ServerError
                   (doData \<lparr>data = None, errors = property message ''payload'',
                            networkError = False, size_result = int (length raw),
                            extensions = None\<rparr> s))
      else if property message ''type'' = Some (JStr ''complete'')
      then (if property message ''id'' \<noteq> Some (JStr subscriptionId)
            then doError (ErrString ''Invalid payload for 'complete' packet'') s
            else doAbort Server s)
      else doError (ErrString ''Unknown message type from WebSocket server'') s)"

definition onmessage :: "message_data \<Rightarrow> session \<Rightarrow> session" where
  "onmessage ev s =
     (if aborted s then s
      else (case ev of
              BinaryData \<Rightarrow> doError (ErrString ''WebSocket data is not string'') s
            | TextData raw parsed \<Rightarrow>
                (case parsed of
                   None \<Rightarrow> doError (ErrString ''WebSocket message is not valid JSON'') s
                 | Some message \<Rightarrow>
                     if message = JNull then doError (ErrString ''WebSocket message is null'') s
                     else (let s1 = call_hook (HookInbound message) s
                           in if timeoutHandler s \<and> consumes s message then s1
                              else dispatch_message raw message s1))))"

text \<open>The platform opens or closes the socket and fires the event.\<close>

definition open_event :: "session \<Rightarrow> session" where
  "open_event s =
     (case webSocket s of
        None \<Rightarrow> s
      | Some ws \<Rightarrow> if readyState ws = 0
                   then onopen (s\<lparr>webSocket := Some (ws\<lparr>readyState := 1\<rparr>)\<rparr>) else s)"

definition close_event :: "session \<Rightarrow> session" where
  "close_event s =
     (case webSocket s of
        None \<Rightarrow> s
      | Some ws \<Rightarrow> if readyState ws \<noteq> 3
                   then onclose (s\<lparr>webSocket := Some (ws\<lparr>readyState := 3\<rparr>)\<rparr>) else s)"

section \<open>Reference notions and example inputs\<close>

subsection \<open>For the cache store\<close>

text \<open>
  A \<^verbatim>\<open>Map\<close> holds each key once.  \<^term>\<open>evictable\<close> are the entries the loop of
  \<^verbatim>\<open>allocateCacheSize\<close> considers; \<^term>\<open>remove_entry\<close> and \<^term>\<open>dropExpired\<close> describe
  what the two phases are meant to do, for comparison with the code.
\<close>

definition keys_distinct :: "client \<Rightarrow> bool" where
  "keys_distinct s = distinct (map (key_of s) (cache s))"

definition evictable :: "client \<Rightarrow> nat option \<Rightarrow> nat \<Rightarrow> bool" where
  "evictable s exclude r = (r \<in> set (cache s) \<and> subscribers (heap s r) = [] \<and> Some r \<noteq> exclude)"

definition remove_entry :: "nat \<Rightarrow> client \<Rightarrow> client" where
  "remove_entry r s = s\<lparr>cache := removeAll r (cache s), cacheSize := cacheSize s - size_entry (heap s r)\<rparr>"

definition expired_idle :: "client \<Rightarrow> int \<Rightarrow> nat \<Rightarrow> bool" where
  "expired_idle s nowDate r = (subscribers (heap s r) = [] \<and> expires (heap s r) < nowDate)"

definition dropExpired :: "int \<Rightarrow> client \<Rightarrow> client" where
  "dropExpired nowDate s =
     s\<lparr>cache := filter (\<lambda>r. \<not> expired_idle s nowDate r) (cache s),
       cacheSize := cacheSize s - sum_list (map (\<lambda>r. size_entry (heap s r)) (filter (expired_idle s nowDate) (cache s)))\<rparr>"



text \<open>
  A client right after its first \<^verbatim>\<open>executeQuery\<close>: one cached entry, loading, with
  promise 0 in flight.  A result without errors and one with errors.
\<close>

definition loaded :: "client" where
  "loaded = snd (executeQuery ''q'' None None 50 (newClient 5000 CacheFirst 1000))"

definition result_ok :: "int IQueryResult" where
  "result_ok = \<lparr>data = Some (JObj [(''x'', JNum 1)]), errors = None, networkError = False,
                size_result = 20, extensions = None\<rparr>"

definition result_failed :: "int IQueryResult" where
  "result_failed = \<lparr>data = None, errors = Some (JArr [JObj [(''message'', JStr ''denied'')]]),
                    networkError = False, size_result = 40, extensions = None\<rparr>"



text \<open>
  The sum of the \<^verbatim>\<open>size\<close> fields of the entries in the map.
\<close>

definition cache_total :: "client \<Rightarrow> int" where
  "cache_total s = sum_list (map (\<lambda>r. size_entry (heap s r)) (cache s))"

subsection \<open>For the query executor\<close>

text \<open>
  A configuration without hooks and without strict validation, a platform whose
  \<^verbatim>\<open>fetch\<close> settles in a given way, a response with status 500, two bodies, and
  the response with status 200 for a given \<^verbatim>\<open>Content-Length\<close> header and body.
\<close>

definition plain_configuration :: configuration where
  "plain_configuration =
     \<lparr>validateResponseContentType = False, transformRequest = None, logHttpError = None\<rparr>"

definition serving :: "http_response settled \<Rightarrow> platform" where
  "serving outcome = \<lparr>newRequest = (\<lambda>request. None), fetch = (\<lambda>request. outcome)\<rparr>"

definition response_500 :: http_response where
  "response_500 =
     \<lparr>status = 500, statusText = ''Internal Server Error'', contentType = Some ''text/html'',
      contentLength = None, json_body = Rejected (ErrObject (Some ''Unexpected token''))\<rparr>"

definition body_x1 :: json where
  "body_x1 = JObj [(''data'', JObj [(''x'', JNum 1)])]"

definition body_with_errors :: json where
  "body_with_errors =
     JObj [(''data'', JObj [(''x'', JNum 1)]),
           (''errors'', JArr [JObj [(''message'', JStr ''denied'')]])]"

definition response_200 :: "string option \<Rightarrow> json \<Rightarrow> http_response" where
  "response_200 contentLengthHeader body =
     \<lparr>status = 200, statusText = ''OK'', contentType = Some ''application/json'',
      contentLength = contentLengthHeader, json_body = Resolved body\<rparr>"

subsection \<open>For the subscription engine\<close>

text \<open>
  A session whose socket, if it has one, is closing or closed.  \<^term>\<open>live\<close> is a session
  with a timeout strategy whose payload has been generated and whose socket has opened.
  \<^term>\<open>frame_type\<close> and \<^term>\<open>frame_id_matches\<close> read \<^verbatim>\<open>message.type\<close> and compare
  \<^verbatim>\<open>message.id\<close> with the subscription id.
\<close>

definition closing :: "session \<Rightarrow> bool" where
  "closing s = (case webSocket s of None \<Rightarrow> True
                | Some ws \<Rightarrow> readyState ws = 2 \<or> readyState ws = 3)"

definition live :: session where
  "live = open_event (payload_resolved None
            (executeSubscription ''subscription { tick }'' True (\<lambda>message. False) False 0))"











section \<open>Properties of the cache store\<close>

subsection \<open>Eviction\<close>

lemma key_of_cache_upd [simp]: "key_of (s\<lparr>cache := c, cacheSize := z\<rparr>) = key_of s"
  by (simp add: key_of_def fun_eq_iff)

lemma distinct_map_filter_key:
  assumes "distinct (map f xs)" "r \<in> set xs"
  shows "filter (\<lambda>r'. f r' \<noteq> f r) xs = removeAll r xs"
  using assms
proof (induction xs)
  case Nil then show ?case by simp
next
  case (Cons a xs)
  show ?case
  proof (cases "a = r")
    case True
    with Cons.prems have "\<forall>x\<in>set xs. f x \<noteq> f r" by (auto simp: image_iff)
    then have "filter (\<lambda>r'. f r' \<noteq> f r) xs = xs" by (simp add: filter_id_conv)
    moreover from True Cons.prems have "r \<notin> set xs" by auto
    ultimately show ?thesis using True by simp
  next
    case False
    with Cons.prems have "r \<in> set xs" "f a \<noteq> f r" by auto
    with Cons show ?thesis using False by simp
  qed
qed

lemma evict_remove_entry:
  assumes "keys_distinct s" "r \<in> set (cache s)"
  shows "evict r s = remove_entry r s"
proof -
  have "cache_has s (key_of s r)" using assms(2) by (auto simp: cache_has_def)
  moreover have "filter (\<lambda>r'. key_of s r' \<noteq> key_of s r) (cache s) = removeAll r (cache s)"
    using assms by (intro distinct_map_filter_key) (auto simp: keys_distinct_def)
  ultimately show ?thesis by (simp add: evict_def remove_entry_def)
qed

lemma keys_distinct_remove_entry:
  "keys_distinct s \<Longrightarrow> keys_distinct (remove_entry r s)"
  by (simp add: keys_distinct_def remove_entry_def removeAll_filter_not_eq distinct_map_filter)

lemma heap_remove_entry [simp]: "heap (remove_entry r s) = heap s"
  by (simp add: remove_entry_def)

lemma cache_remove_entry [simp]: "cache (remove_entry r s) = removeAll r (cache s)"
  by (simp add: remove_entry_def)

lemma foldl_evict:
  assumes "keys_distinct s" "distinct rs" "set rs \<subseteq> set (cache s)"
  shows "foldl (\<lambda>t r. evict r t) s rs =
         s\<lparr>cache := filter (\<lambda>r. r \<notin> set rs) (cache s),
           cacheSize := cacheSize s - sum_list (map (\<lambda>r. size_entry (heap s r)) rs)\<rparr>"
  using assms
proof (induction rs arbitrary: s)
  case Nil then show ?case by simp
next
  case (Cons a rs)
  have e: "evict a s = remove_entry a s" using Cons.prems by (intro evict_remove_entry) auto
  have kd: "keys_distinct (remove_entry a s)" using Cons.prems(1) by (rule keys_distinct_remove_entry)
  have sub: "set rs \<subseteq> set (cache (remove_entry a s))" using Cons.prems by auto
  have "foldl (\<lambda>t r. evict r t) (remove_entry a s) rs =
      (remove_entry a s)\<lparr>cache := filter (\<lambda>r. r \<notin> set rs) (cache (remove_entry a s)),
           cacheSize := cacheSize (remove_entry a s) - sum_list (map (\<lambda>r. size_entry (heap (remove_entry a s) r)) rs)\<rparr>"
    using Cons.prems by (intro Cons.IH[OF kd _ sub]) auto
  then show ?case
    by (simp add: e remove_entry_def removeAll_filter_not_eq algebra_simps neq_commute)
qed

lemma drop_expired_eq:
  assumes "keys_distinct s"
  shows "foldl (\<lambda>t r. evict r t) s (entriesToRemove nowDate s) = dropExpired nowDate s"
proof -
  have d: "distinct (cache s)" using assms by (auto simp: keys_distinct_def dest: distinct_map[THEN iffD1])
  have "foldl (\<lambda>t r. evict r t) s (entriesToRemove nowDate s) =
     s\<lparr>cache := filter (\<lambda>r. r \<notin> set (entriesToRemove nowDate s)) (cache s),
           cacheSize := cacheSize s - sum_list (map (\<lambda>r. size_entry (heap s r)) (entriesToRemove nowDate s))\<rparr>"
    using assms d by (intro foldl_evict) (auto simp: entriesToRemove_def)
  moreover have "filter (\<lambda>r. r \<notin> set (entriesToRemove nowDate s)) (cache s) = filter (\<lambda>r. \<not> expired_idle s nowDate r) (cache s)"
    by (rule filter_cong) (auto simp: entriesToRemove_def expired_idle_def)
  moreover have "entriesToRemove nowDate s = filter (expired_idle s nowDate) (cache s)"
    by (simp add: entriesToRemove_def expired_idle_def[abs_def])
  ultimately show ?thesis by (simp add: dropExpired_def)
qed

lemma oldestEntry_None:
  "oldestEntry h exclude rs acc = None \<longleftrightarrow>
     acc = None \<and> (\<forall>r\<in>set rs. \<not> (subscribers (h r) = [] \<and> Some r \<noteq> exclude))"
  by (induction rs arbitrary: acc) (auto split: option.splits)

lemma oldestEntry_Some:
  assumes "oldestEntry h exclude rs acc = Some r"
  shows "((r \<in> set rs \<and> subscribers (h r) = [] \<and> Some r \<noteq> exclude) \<or> acc = Some r) \<and>
         (\<forall>r'\<in>set rs. subscribers (h r') = [] \<and> Some r' \<noteq> exclude \<longrightarrow> lastUsed (h r) \<le> lastUsed (h r')) \<and>
         (\<forall>a. acc = Some a \<longrightarrow> lastUsed (h r) \<le> lastUsed (h a))"
  using assms
proof (induction rs arbitrary: acc)
  case Nil then show ?case by simp
next
  case (Cons x xs)
  let ?acc' = "(if subscribers (h x) = [] \<and> Some x \<noteq> exclude
        then (case acc of None \<Rightarrow> Some x
              | Some ol \<Rightarrow> if lastUsed (h x) < lastUsed (h ol) then Some x else acc)
        else acc)"
  from Cons.prems have "oldestEntry h exclude xs ?acc' = Some r" by simp
  from Cons.IH[OF this] show ?case
    by (auto split: if_splits option.splits)
qed

lemma oldestEntry_evictable:
  assumes "oldestEntry (heap s) exclude (cache s) None = Some r"
  shows "evictable s exclude r \<and> (\<forall>r'. evictable s exclude r' \<longrightarrow> lastUsed (heap s r) \<le> lastUsed (heap s r'))"
  using oldestEntry_Some[OF assms] by (auto simp: evictable_def)

lemma oldestEntry_no_evictable:
  "oldestEntry (heap s) exclude (cache s) None = None \<longleftrightarrow> (\<forall>r. \<not> evictable s exclude r)"
  by (auto simp: oldestEntry_None evictable_def)

lemma evictOldest_step:
  assumes "keys_distinct s" "0 < needBytes s newSize" "oldestEntry (heap s) exclude (cache s) None = Some r"
  shows "evictOldest newSize exclude s = evictOldest newSize exclude (remove_entry r s)"
proof -
  have "r \<in> set (cache s)" using oldestEntry_evictable[OF assms(3)] by (simp add: evictable_def)
  then have "evict r s = remove_entry r s" using assms(1) by (simp add: evict_remove_entry)
  then show ?thesis using assms(2,3) by (subst evictOldest.simps) simp
qed

lemma needBytes_remove_entry: "needBytes (remove_entry r s) n = needBytes s n - size_entry (heap s r)"
  by (simp add: needBytes_def remove_entry_def)

lemma evictOldest_props:
  assumes "keys_distinct s"
  shows "heap (evictOldest newSize exclude s) = heap s \<and>
         maxCacheSize (evictOldest newSize exclude s) = maxCacheSize s \<and>
         keys_distinct (evictOldest newSize exclude s) \<and>
         set (cache (evictOldest newSize exclude s)) \<subseteq> set (cache s) \<and>
         (\<forall>r\<in>set (cache s). r \<notin> set (cache (evictOldest newSize exclude s)) \<longrightarrow> evictable s exclude r) \<and>
         (needBytes (evictOldest newSize exclude s) newSize \<le> 0 \<or>
          (\<forall>r. \<not> evictable (evictOldest newSize exclude s) exclude r))"
  using assms
proof (induction newSize exclude s rule: evictOldest.induct)
  case (1 newSize exclude s)
  show ?case
  proof (cases "needBytes s newSize \<le> 0")
    case True
    then show ?thesis using "1.prems" by (subst (1 2 3 4 5 6 7) evictOldest.simps) simp
  next
    case over: False
    show ?thesis
    proof (cases "oldestEntry (heap s) exclude (cache s) None")
      case None
      then have "evictOldest newSize exclude s = s" using over by (subst evictOldest.simps) simp
      moreover have "\<forall>r. \<not> evictable s exclude r" using None by (simp add: oldestEntry_no_evictable)
      ultimately show ?thesis using "1.prems" by simp
    next
      case (Some r)
      have ev: "evictable s exclude r" using oldestEntry_evictable[OF Some] by simp
      then have mem: "r \<in> set (cache s)" by (simp add: evictable_def)
      have e: "evict r s = remove_entry r s" using "1.prems" mem by (simp add: evict_remove_entry)
      have kd: "keys_distinct (evict r s)" using "1.prems" by (simp add: e keys_distinct_remove_entry)
      note IH = "1.IH"[OF over Some kd]
      have step: "evictOldest newSize exclude s = evictOldest newSize exclude (remove_entry r s)"
        using over Some "1.prems" by (intro evictOldest_step) auto
      have ev': "\<And>r'. evictable (remove_entry r s) exclude r' \<Longrightarrow> evictable s exclude r'"
        by (auto simp: evictable_def)
      show ?thesis
        unfolding step using IH ev ev' unfolding e
        by (auto simp: remove_entry_def evictable_def)
    qed
  qed
qed

lemma keys_distinct_dropExpired: "keys_distinct s \<Longrightarrow> keys_distinct (dropExpired nowDate s)"
  by (simp add: keys_distinct_def dropExpired_def distinct_map_filter)




subsection \<open>Refresh and completion\<close>

lemma evict_fields: "\<exists>c z. evict r s = s\<lparr>cache := c, cacheSize := z\<rparr>"
proof (cases "cache_has s (key_of s r)")
  case True then show ?thesis by (auto simp: evict_def)
next
  case False
  then have "evict r s = s\<lparr>cache := cache s, cacheSize := cacheSize s\<rparr>" by (simp add: evict_def)
  then show ?thesis by blast
qed

lemma foldl_evict_fields: "\<exists>c z. foldl (\<lambda>t r. evict r t) s rs = s\<lparr>cache := c, cacheSize := z\<rparr>"
proof (induction rs arbitrary: s)
  case Nil
  have "s = s\<lparr>cache := cache s, cacheSize := cacheSize s\<rparr>" by simp
  then show ?case by (metis foldl_Nil)
next
  case (Cons a rs)
  obtain c z where e: "evict a s = s\<lparr>cache := c, cacheSize := z\<rparr>" using evict_fields by blast
  obtain c' z' where "foldl (\<lambda>t r. evict r t) (evict a s) rs = (evict a s)\<lparr>cache := c', cacheSize := z'\<rparr>"
    using Cons.IH by blast
  then have "foldl (\<lambda>t r. evict r t) s (a # rs) = s\<lparr>cache := c', cacheSize := z'\<rparr>"
    by (simp add: e)
  then show ?case by blast
qed

lemma evictOldest_fields: "\<exists>c z. evictOldest newSize exclude s = s\<lparr>cache := c, cacheSize := z\<rparr>"
proof (induction newSize exclude s rule: evictOldest.induct)
  case (1 newSize exclude s)
  have triv: "s = s\<lparr>cache := cache s, cacheSize := cacheSize s\<rparr>" by simp
  show ?case
  proof (cases "needBytes s newSize \<le> 0")
    case True
    then have "evictOldest newSize exclude s = s" by (subst evictOldest.simps) simp
    with triv show ?thesis by metis
  next
    case over: False
    show ?thesis
    proof (cases "oldestEntry (heap s) exclude (cache s) None")
      case None
      then have "evictOldest newSize exclude s = s" using over by (subst evictOldest.simps) simp
      with triv show ?thesis by metis
    next
      case (Some r)
      obtain c z where e: "evict r s = s\<lparr>cache := c, cacheSize := z\<rparr>" using evict_fields by blast
      obtain c' z' where "evictOldest newSize exclude (evict r s) = (evict r s)\<lparr>cache := c', cacheSize := z'\<rparr>"
        using "1.IH"[OF over Some] by blast
      moreover have "evictOldest newSize exclude s = evictOldest newSize exclude (evict r s)"
        using over Some by (subst evictOldest.simps) simp
      ultimately have "evictOldest newSize exclude s = s\<lparr>cache := c', cacheSize := z'\<rparr>"
        by (simp add: e)
      then show ?thesis by blast
    qed
  qed
qed

lemma allocateCacheSize_fields:
  "\<exists>c z. allocateCacheSize newSize exclude nowDate s = s\<lparr>cache := c, cacheSize := z\<rparr>"
proof (cases "needBytes s newSize \<le> 0")
  case True
  then have "allocateCacheSize newSize exclude nowDate s = s\<lparr>cache := cache s, cacheSize := cacheSize s\<rparr>"
    by (simp add: allocateCacheSize_def)
  then show ?thesis by blast
next
  case False
  obtain c z where f: "foldl (\<lambda>t r. evict r t) s (entriesToRemove nowDate s) = s\<lparr>cache := c, cacheSize := z\<rparr>"
    using foldl_evict_fields by blast
  obtain c' z' where "evictOldest newSize exclude (s\<lparr>cache := c, cacheSize := z\<rparr>)
        = (s\<lparr>cache := c, cacheSize := z\<rparr>)\<lparr>cache := c', cacheSize := z'\<rparr>"
    using evictOldest_fields by blast
  then have "allocateCacheSize newSize exclude nowDate s = s\<lparr>cache := c', cacheSize := z'\<rparr>"
    using False by (simp add: allocateCacheSize_def f)
  then show ?thesis by blast
qed

lemma setCacheEntrySize_fields:
  "\<exists>c z. setCacheEntrySize r newSize now s =
     s\<lparr>heap := (heap s)(r := (heap s r)\<lparr>size_entry := newSize\<rparr>), cache := c, cacheSize := z\<rparr>"
proof (cases "cache_get s (key_of s r) = Some r")
  case True
  obtain c z where a: "allocateCacheSize newSize (Some r) now (s\<lparr>cacheSize := cacheSize s - size_entry (heap s r)\<rparr>)
      = (s\<lparr>cacheSize := cacheSize s - size_entry (heap s r)\<rparr>)\<lparr>cache := c, cacheSize := z\<rparr>"
    using allocateCacheSize_fields by blast
  have "setCacheEntrySize r newSize now s =
     s\<lparr>heap := (heap s)(r := (heap s r)\<lparr>size_entry := newSize\<rparr>), cache := c, cacheSize := z + size_entry (heap s r)\<rparr>"
    using True by (simp add: setCacheEntrySize_def Let_def a update_entry_def)
  then show ?thesis by blast
next
  case False
  then have "setCacheEntrySize r newSize now s =
     s\<lparr>heap := (heap s)(r := (heap s r)\<lparr>size_entry := newSize\<rparr>), cache := cache s, cacheSize := cacheSize s\<rparr>"
    by (simp add: setCacheEntrySize_def update_entry_def)
  then show ?thesis by blast
qed

lemma refresh_loading:
  "loading (heap s r) \<Longrightarrow> refresh r s = (resultPromise (heap s r), s)"
  by (simp add: refresh_def)

lemma refresh_start:
  assumes "\<not> loading (heap s r)"
  shows "refresh r s =
     (Some (nextPromise s),
      s\<lparr>heap := (heap s)(r := (heap s r)\<lparr>loading := True, resultPromise := Some (nextPromise s),
                                         cancelRequest := Some (nextPromise s)\<rparr>),
        pendingRequests := pendingRequests s + 1,
        nextPromise := Suc (nextPromise s),
        dispatched := dispatched s @ [(nextPromise s, key_of s r)]\<rparr>)"
  using assms by (simp add: refresh_def executeQueryRaw_start_def update_entry_def)

text \<open>
  Claim C2.  On an entry that is loading, \<^verbatim>\<open>refresh()\<close> returns the promise stored in
  the cell and changes nothing: no request is counted or dispatched.  On an entry that
  is not loading it dispatches one request and stores its promise.  In both cases a
  second \<^verbatim>\<open>refresh()\<close> right after the first returns the same promise and leaves the
  same client, so two consecutive calls dispatch at most one request, and exactly one
  when the entry was idle.
\<close>

theorem refresh_single_flight:
  "(loading (heap s r) \<longrightarrow> refresh r s = (resultPromise (heap s r), s)) \<and>
   (\<not> loading (heap s r) \<longrightarrow>
      fst (refresh r s) = Some (nextPromise s) \<and>
      loading (heap (snd (refresh r s)) r) \<and>
      resultPromise (heap (snd (refresh r s)) r) = Some (nextPromise s) \<and>
      dispatched (snd (refresh r s)) = dispatched s @ [(nextPromise s, key_of s r)]) \<and>
   refresh r (snd (refresh r s)) = refresh r s \<and>
   length (dispatched (snd (refresh r (snd (refresh r s))))) =
     length (dispatched s) + (if loading (heap s r) then 0 else 1)"
proof (cases "loading (heap s r)")
  case True
  then show ?thesis by (simp add: refresh_loading)
next
  case False
  let ?s1 = "snd (refresh r s)"
  have l1: "loading (heap ?s1 r)" and p1: "resultPromise (heap ?s1 r) = Some (nextPromise s)"
    using False by (simp_all add: refresh_start)
  have again: "refresh r ?s1 = refresh r s"
    using refresh_loading[OF l1] p1 False by (simp add: refresh_start)
  show ?thesis
    using False l1 p1 unfolding again by (simp add: refresh_start)
qed

lemma loaded_eq:
  "loaded =
     (newClient 5000 CacheFirst 1000)
       \<lparr>heap := (heap (newClient 5000 CacheFirst 1000))
                 (0 := \<lparr>queryAndVariablesString = ''q'', size_entry = 1000, expires = 0,
                        lastUsed = 50, subscribers = [], cancelRequest = Some 0,
                        result = None, resultPromise = Some 0, loading = True,
                        cacheMode = CacheFirst, cacheTimeoutValue = 1000\<rparr>),
        nextRef := 1, cache := [0], cacheSize := 1000, pendingRequests := 1,
        nextPromise := 1, dispatched := [(0, ''q'')]\<rparr>"
  by (simp add: loaded_def executeQuery_def getOrCreateCacheEntry_def createCacheEntry_def
      cache_get_def newClient_def newEntryFactory_def refresh_def executeQueryRaw_start_def
      update_entry_def allocateCacheSize_def needBytes_def cache_set_def cache_has_def
      key_of_def Let_def)

theorem refresh_single_flight_witness:
  "loading (heap loaded 0) \<and>
   refresh 0 loaded = (Some 0, loaded) \<and>
   refresh 0 (snd (refresh 0 loaded)) = (Some 0, loaded) \<and>
   dispatched (snd (refresh 0 (snd (refresh 0 loaded)))) = [(0, ''q'')] \<and>
   \<not> loading (heap (newClient 5000 CacheFirst 1000) 0) \<and>
   fst (refresh 0 (newClient 5000 CacheFirst 1000)) = Some 0 \<and>
   refresh 0 (snd (refresh 0 (newClient 5000 CacheFirst 1000))) =
     refresh 0 (newClient 5000 CacheFirst 1000) \<and>
   length (dispatched (snd (refresh 0 (snd (refresh 0 (newClient 5000 CacheFirst 1000)))))) = 1"
proof -
  have l: "loading (heap loaded 0)" "resultPromise (heap loaded 0) = Some 0"
          "dispatched loaded = [(0, ''q'')]"
    by (simp_all add: loaded_eq)
  have n: "\<not> loading (heap (newClient 5000 CacheFirst 1000) 0)"
          "nextPromise (newClient 5000 CacheFirst 1000) = 0"
          "dispatched (newClient 5000 CacheFirst 1000) = []"
    by (simp_all add: newClient_def)
  show ?thesis
    using refresh_single_flight[of loaded 0] refresh_single_flight[of "newClient 5000 CacheFirst 1000" 0]
    by (simp add: l n)
qed

lemma has_errors_array:
  "errors d = Some (JArr (x # xs)) \<Longrightarrow> has_errors d"
  "errors d = None \<Longrightarrow> \<not> has_errors d"
  "errors d = Some (JArr []) \<Longrightarrow> \<not> has_errors d"
  by (simp_all add: has_errors_def)

lemma forceRefresh_promise:
  "resultPromise (heap (forceRefresh r s) r) = Some (nextPromise s)"
  by (cases "cancelRequest (heap s r)")
     (simp_all add: forceRefresh_def refresh_def executeQueryRaw_start_def update_entry_def)

lemma refresh_resolved_stale:
  "resultPromise (heap s r) \<noteq> Some p \<Longrightarrow> refresh_resolved r p d now s = s"
  by (simp add: refresh_resolved_def)

lemma refresh_resolved_errors:
  assumes "resultPromise (heap s r) = Some p" "has_errors d"
  shows "refresh_resolved r p d now s =
     s\<lparr>heap := (heap s)(r := (heap s r)\<lparr>result := Some d, loading := False,
                                        cancelRequest := None, expires := 0\<rparr>),
       delivered := delivered s @ map (\<lambda>cb. (cb, Some d)) (subscribers (heap s r))\<rparr>"
  using assms by (simp add: refresh_resolved_def update_entry_def notify_def)

lemma refresh_resolved_ok:
  assumes "resultPromise (heap s r) = Some p" "\<not> has_errors d"
  shows "\<exists>c z. refresh_resolved r p d now s =
     s\<lparr>heap := (heap s)(r := (heap s r)\<lparr>result := Some d, loading := False,
                 cancelRequest := None, size_entry := size_result d + 1000,
                 expires := (if cacheMode (heap s r) = NoCache then expires (heap s r)
                             else now + cacheTimeoutValue (heap s r))\<rparr>),
       cache := c, cacheSize := z,
       delivered := delivered s @ map (\<lambda>cb. (cb, Some d)) (subscribers (heap s r))\<rparr>"
proof -
  let ?s1 = "update_entry r (\<lambda>e. e\<lparr>result := Some d, loading := False, cancelRequest := None\<rparr>) s"
  obtain c z where sz: "setCacheEntrySize r (size_result d + 1000) now ?s1 =
     ?s1\<lparr>heap := (heap ?s1)(r := (heap ?s1 r)\<lparr>size_entry := size_result d + 1000\<rparr>), cache := c, cacheSize := z\<rparr>"
    using setCacheEntrySize_fields by blast
  have "refresh_resolved r p d now s =
     s\<lparr>heap := (heap s)(r := (heap s r)\<lparr>result := Some d, loading := False,
                 cancelRequest := None, size_entry := size_result d + 1000,
                 expires := (if cacheMode (heap s r) = NoCache then expires (heap s r)
                             else now + cacheTimeoutValue (heap s r))\<rparr>),
       cache := c, cacheSize := z,
       delivered := delivered s @ map (\<lambda>cb. (cb, Some d)) (subscribers (heap s r))\<rparr>"
    using assms unfolding refresh_resolved_def Let_def sz
    by (simp add: update_entry_def notify_def)
  then show ?thesis by blast
qed

text \<open>
  Claim C3.  The continuation of an attempt with promise \<open>p\<close> leaves the client as it is
  unless the cell's \<^verbatim>\<open>resultPromise\<close> is \<open>p\<close>; after \<^verbatim>\<open>forceRefresh\<close> the cell holds a
  new promise, so the completion of any earlier attempt is dropped.  A committed result
  is stored, \<^verbatim>\<open>loading\<close> and \<^verbatim>\<open>cancelRequest\<close> are cleared and every subscriber is
  called with it.  With errors, \<^verbatim>\<open>expires\<close> becomes 0 whatever the mode and the size is
  kept; without, the size becomes \<open>data.size + 1000\<close> and \<^verbatim>\<open>expires\<close> becomes
  \<open>now + cacheTimeout\<close> unless the mode is no-cache, which leaves it alone.  A non-empty
  \<^verbatim>\<open>errors\<close> array counts as errors; an absent or empty one does not.
\<close>

theorem refresh_resolved_commit:
  "(resultPromise (heap s r) \<noteq> Some p \<longrightarrow> refresh_resolved r p d now s = s) \<and>
   (p < nextPromise s \<longrightarrow>
      refresh_resolved r p d now (forceRefresh r s) = forceRefresh r s) \<and>
   (resultPromise (heap s r) = Some p \<longrightarrow>
      result (heap (refresh_resolved r p d now s) r) = Some d \<and>
      \<not> loading (heap (refresh_resolved r p d now s) r) \<and>
      cancelRequest (heap (refresh_resolved r p d now s) r) = None \<and>
      delivered (refresh_resolved r p d now s) =
        delivered s @ map (\<lambda>cb. (cb, Some d)) (subscribers (heap s r)) \<and>
      (has_errors d \<longrightarrow>
         expires (heap (refresh_resolved r p d now s) r) = 0 \<and>
         size_entry (heap (refresh_resolved r p d now s) r) = size_entry (heap s r)) \<and>
      (\<not> has_errors d \<longrightarrow>
         size_entry (heap (refresh_resolved r p d now s) r) = size_result d + 1000 \<and>
         expires (heap (refresh_resolved r p d now s) r) =
           (if cacheMode (heap s r) = NoCache then expires (heap s r)
            else now + cacheTimeoutValue (heap s r)))) \<and>
   (\<forall>x xs. errors d = Some (JArr (x # xs)) \<longrightarrow> has_errors d) \<and>
   (errors d = None \<or> errors d = Some (JArr []) \<longrightarrow> \<not> has_errors d)"
proof -
  have stale: "resultPromise (heap s r) \<noteq> Some p \<longrightarrow> refresh_resolved r p d now s = s"
    by (simp add: refresh_resolved_stale)
  have super: "p < nextPromise s \<longrightarrow>
      refresh_resolved r p d now (forceRefresh r s) = forceRefresh r s"
    by (simp add: refresh_resolved_stale forceRefresh_promise)
  have commit: "resultPromise (heap s r) = Some p \<longrightarrow>
      result (heap (refresh_resolved r p d now s) r) = Some d \<and>
      \<not> loading (heap (refresh_resolved r p d now s) r) \<and>
      cancelRequest (heap (refresh_resolved r p d now s) r) = None \<and>
      delivered (refresh_resolved r p d now s) =
        delivered s @ map (\<lambda>cb. (cb, Some d)) (subscribers (heap s r)) \<and>
      (has_errors d \<longrightarrow>
         expires (heap (refresh_resolved r p d now s) r) = 0 \<and>
         size_entry (heap (refresh_resolved r p d now s) r) = size_entry (heap s r)) \<and>
      (\<not> has_errors d \<longrightarrow>
         size_entry (heap (refresh_resolved r p d now s) r) = size_result d + 1000 \<and>
         expires (heap (refresh_resolved r p d now s) r) =
           (if cacheMode (heap s r) = NoCache then expires (heap s r)
            else now + cacheTimeoutValue (heap s r)))"
  proof
    assume rp: "resultPromise (heap s r) = Some p"
    show "result (heap (refresh_resolved r p d now s) r) = Some d \<and>
      \<not> loading (heap (refresh_resolved r p d now s) r) \<and>
      cancelRequest (heap (refresh_resolved r p d now s) r) = None \<and>
      delivered (refresh_resolved r p d now s) =
        delivered s @ map (\<lambda>cb. (cb, Some d)) (subscribers (heap s r)) \<and>
      (has_errors d \<longrightarrow>
         expires (heap (refresh_resolved r p d now s) r) = 0 \<and>
         size_entry (heap (refresh_resolved r p d now s) r) = size_entry (heap s r)) \<and>
      (\<not> has_errors d \<longrightarrow>
         size_entry (heap (refresh_resolved r p d now s) r) = size_result d + 1000 \<and>
         expires (heap (refresh_resolved r p d now s) r) =
           (if cacheMode (heap s r) = NoCache then expires (heap s r)
            else now + cacheTimeoutValue (heap s r)))"
    proof (cases "has_errors d")
      case True
      show ?thesis unfolding refresh_resolved_errors[OF rp True] using True by simp
    next
      case False
      obtain c z where "refresh_resolved r p d now s =
         s\<lparr>heap := (heap s)(r := (heap s r)\<lparr>result := Some d, loading := False,
                 cancelRequest := None, size_entry := size_result d + 1000,
                 expires := (if cacheMode (heap s r) = NoCache then expires (heap s r)
                             else now + cacheTimeoutValue (heap s r))\<rparr>),
       cache := c, cacheSize := z,
       delivered := delivered s @ map (\<lambda>cb. (cb, Some d)) (subscribers (heap s r))\<rparr>"
        using refresh_resolved_ok[OF rp False] by blast
      then show ?thesis using False by simp
    qed
  qed
  have arr: "\<forall>x xs. errors d = Some (JArr (x # xs)) \<longrightarrow> has_errors d"
    by (simp add: has_errors_array)
  have none: "errors d = None \<or> errors d = Some (JArr []) \<longrightarrow> \<not> has_errors d"
    by (auto simp: has_errors_array)
  from stale super commit arr none show ?thesis by blast
qed

theorem refresh_resolved_commit_witness:
  "resultPromise (heap (subscribe 0 7 loaded) 0) = Some 0 \<and>
   \<not> has_errors result_ok \<and> has_errors result_failed \<and>
   result (heap (refresh_resolved 0 0 result_ok 70 (subscribe 0 7 loaded)) 0) = Some result_ok \<and>
   \<not> loading (heap (refresh_resolved 0 0 result_ok 70 (subscribe 0 7 loaded)) 0) \<and>
   delivered (refresh_resolved 0 0 result_ok 70 (subscribe 0 7 loaded)) = [(7, Some result_ok)] \<and>
   size_entry (heap (refresh_resolved 0 0 result_ok 70 (subscribe 0 7 loaded)) 0) = 1020 \<and>
   expires (heap (refresh_resolved 0 0 result_ok 70 (subscribe 0 7 loaded)) 0) = 1070 \<and>
   expires (heap (refresh_resolved 0 0 result_failed 70 (subscribe 0 7 loaded)) 0) = 0 \<and>
   refresh_resolved 0 0 result_ok 70 (forceRefresh 0 loaded) = forceRefresh 0 loaded \<and>
   refresh_resolved 0 5 result_ok 70 loaded = loaded"
proof -
  let ?s = "subscribe 0 7 loaded"
  have f: "resultPromise (heap ?s 0) = Some 0" "subscribers (heap ?s 0) = [7]"
          "delivered ?s = []" "cacheMode (heap ?s 0) = CacheFirst"
          "cacheTimeoutValue (heap ?s 0) = 1000" "nextPromise loaded = 1"
          "resultPromise (heap loaded 0) = Some 0"
    by (simp_all add: subscribe_def update_entry_def loaded_eq newClient_def)
  have e: "\<not> has_errors result_ok" "has_errors result_failed"
          "errors result_failed = Some (JArr [JObj [(''message'', JStr ''denied'')]])"
    by (simp_all add: has_errors_def result_ok_def result_failed_def)
  have sz: "size_result result_ok = 20" by (simp add: result_ok_def)
  show ?thesis
    using refresh_resolved_commit[of ?s 0 0 result_ok 70]
          refresh_resolved_commit[of ?s 0 0 result_failed 70]
          refresh_resolved_commit[of loaded 0 0 result_ok 70]
          refresh_resolved_commit[of loaded 0 5 result_ok 70]
    by (simp add: f e sz)
qed

subsection \<open>No-cache mode\<close>












subsection \<open>The running total\<close>

lemma sum_list_removeAll:
  "distinct xs \<Longrightarrow> r \<in> set xs \<Longrightarrow>
     sum_list (map f (removeAll r xs)) = sum_list (map f xs) - (f r :: int)"
  by (induction xs) auto

lemma sum_list_filter_split:
  "sum_list (map f (filter (\<lambda>x. \<not> P x) xs)) =
     sum_list (map f xs) - (sum_list (map f (filter P xs)) :: int)"
  by (induction xs) auto

lemma keys_distinct_cache: "keys_distinct s \<Longrightarrow> distinct (cache s)"
  by (auto simp: keys_distinct_def dest: distinct_map[THEN iffD1])

lemma remove_entry_total:
  assumes "keys_distinct s" "r \<in> set (cache s)"
  shows "cacheSize (remove_entry r s) - cache_total (remove_entry r s) =
         cacheSize s - cache_total s"
  using sum_list_removeAll[OF keys_distinct_cache[OF assms(1)] assms(2),
          of "\<lambda>r. size_entry (heap s r)"]
  by (simp add: remove_entry_def cache_total_def)

lemma dropExpired_total:
  "cacheSize (dropExpired nowDate s) - cache_total (dropExpired nowDate s) =
   cacheSize s - cache_total s"
  using sum_list_filter_split[of "\<lambda>r. size_entry (heap s r)" "expired_idle s nowDate" "cache s"]
  by (simp add: dropExpired_def cache_total_def)

lemma evictOldest_total:
  assumes "keys_distinct s"
  shows "cacheSize (evictOldest newSize exclude s) - cache_total (evictOldest newSize exclude s) =
         cacheSize s - cache_total s"
  using assms
proof (induction newSize exclude s rule: evictOldest.induct)
  case (1 newSize exclude s)
  show ?case
  proof (cases "needBytes s newSize \<le> 0")
    case True
    then have "evictOldest newSize exclude s = s" by (subst evictOldest.simps) simp
    then show ?thesis by simp
  next
    case over: False
    show ?thesis
    proof (cases "oldestEntry (heap s) exclude (cache s) None")
      case None
      then have "evictOldest newSize exclude s = s" using over by (subst evictOldest.simps) simp
      then show ?thesis by simp
    next
      case (Some r)
      have mem: "r \<in> set (cache s)"
        using oldestEntry_evictable[OF Some] by (simp add: evictable_def)
      have e: "evict r s = remove_entry r s"
        using "1.prems" mem by (simp add: evict_remove_entry)
      have kd: "keys_distinct (evict r s)"
        using "1.prems" by (simp add: e keys_distinct_remove_entry)
      have step: "evictOldest newSize exclude s = evictOldest newSize exclude (evict r s)"
        using over Some by (subst evictOldest.simps) simp
      show ?thesis
        unfolding step using "1.IH"[OF over Some kd] remove_entry_total[OF "1.prems" mem]
        by (simp add: e)
    qed
  qed
qed

lemma allocateCacheSize_total:
  assumes "keys_distinct s"
  shows "cacheSize (allocateCacheSize newSize exclude nowDate s) -
           cache_total (allocateCacheSize newSize exclude nowDate s) =
         cacheSize s - cache_total s"
proof (cases "needBytes s newSize \<le> 0")
  case True then show ?thesis by (simp add: allocateCacheSize_def)
next
  case False
  then have "allocateCacheSize newSize exclude nowDate s =
               evictOldest newSize exclude (dropExpired nowDate s)"
    using assms by (simp add: allocateCacheSize_def drop_expired_eq)
  then show ?thesis
    using evictOldest_total[OF keys_distinct_dropExpired[OF assms], of newSize exclude nowDate]
          dropExpired_total[of nowDate s]
    by simp
qed

lemma cache_total_resize:
  assumes "distinct (cache s)" "r \<in> set (cache s)"
  shows "cache_total (update_entry r (\<lambda>e. e\<lparr>size_entry := n\<rparr>) s) =
         cache_total s + n - size_entry (heap s r)"
proof -
  have "\<And>xs. distinct xs \<Longrightarrow> r \<in> set xs \<Longrightarrow>
      (\<Sum>x\<leftarrow>xs. size_entry (if x = r then (heap s r)\<lparr>size_entry := n\<rparr> else heap s x)) =
      (\<Sum>x\<leftarrow>xs. size_entry (heap s x)) + n - size_entry (heap s r)"
  proof -
    fix xs show "distinct xs \<Longrightarrow> r \<in> set xs \<Longrightarrow>
      (\<Sum>x\<leftarrow>xs. size_entry (if x = r then (heap s r)\<lparr>size_entry := n\<rparr> else heap s x)) =
      (\<Sum>x\<leftarrow>xs. size_entry (heap s x)) + n - size_entry (heap s r)"
    proof (induction xs)
      case Nil then show ?case by simp
    next
      case (Cons a xs)
      show ?case
      proof (cases "a = r")
        case True
        then have "r \<notin> set xs" using Cons.prems by simp
        then have "(\<Sum>x\<leftarrow>xs. size_entry (if x = r then (heap s r)\<lparr>size_entry := n\<rparr> else heap s x)) =
                   (\<Sum>x\<leftarrow>xs. size_entry (heap s x))"
          by (intro arg_cong[where f=sum_list] map_cong) auto
        then show ?thesis using True by simp
      next
        case False
        then show ?thesis using Cons by simp
      qed
    qed
  qed
  from this[OF assms] show ?thesis
    by (simp add: cache_total_def update_entry_def)
qed

text \<open>
  What \<^verbatim>\<open>setCacheEntrySize\<close> does to the difference between the running total and the
  sum of the cached sizes, for an entry that is cached and stays cached.
\<close>

lemma setCacheEntrySize_total:
  assumes kd: "keys_distinct s" and g: "cache_get s (key_of s r) = Some r"
      and stay: "r \<in> set (cache (setCacheEntrySize r newSize now s))"
  shows "cacheSize (setCacheEntrySize r newSize now s) -
           cache_total (setCacheEntrySize r newSize now s) =
         cacheSize s - cache_total s - (newSize - size_entry (heap s r))"
proof -
  let ?s1 = "s\<lparr>cacheSize := cacheSize s - size_entry (heap s r)\<rparr>"
  let ?s2 = "allocateCacheSize newSize (Some r) now ?s1"
  let ?s3 = "?s2\<lparr>cacheSize := cacheSize ?s2 + size_entry (heap ?s2 r)\<rparr>"
  have k1: "key_of ?s1 = key_of s" by (simp add: key_of_def fun_eq_iff)
  have kd1: "keys_distinct ?s1" using kd by (simp add: keys_distinct_def k1)
  obtain c z where f: "?s2 = ?s1\<lparr>cache := c, cacheSize := z\<rparr>"
    using allocateCacheSize_fields by blast
  have h2: "heap ?s2 = heap s" by (simp add: f)
  have eq: "setCacheEntrySize r newSize now s =
              update_entry r (\<lambda>e. e\<lparr>size_entry := newSize\<rparr>) ?s3"
    using g by (simp add: setCacheEntrySize_def Let_def)
  have d2: "cacheSize ?s2 - cache_total ?s2 = cacheSize ?s1 - cache_total ?s1"
    using allocateCacheSize_total[OF kd1] .
  have t1: "cache_total ?s1 = cache_total s" by (simp add: cache_total_def)
  have t3: "cache_total ?s3 = cache_total ?s2" by (simp add: cache_total_def)
  have "keys_distinct ?s2"
  proof (cases "needBytes ?s1 newSize \<le> 0")
    case True then show ?thesis using kd1 by (simp add: allocateCacheSize_def)
  next
    case False
    then have "?s2 = evictOldest newSize (Some r) (dropExpired now ?s1)"
      using kd1 by (simp add: allocateCacheSize_def drop_expired_eq)
    then show ?thesis
      using evictOldest_props[OF keys_distinct_dropExpired[OF kd1], of newSize "Some r" now]
      by simp
  qed
  then have dist: "distinct (cache ?s3)"
    using keys_distinct_cache[of ?s2] by simp
  have mem: "r \<in> set (cache ?s3)" using stay unfolding eq by (simp add: update_entry_def)
  have "cache_total (setCacheEntrySize r newSize now s) =
          cache_total ?s3 + newSize - size_entry (heap ?s3 r)"
    unfolding eq by (rule cache_total_resize[OF dist mem])
  moreover have "cacheSize (setCacheEntrySize r newSize now s) = cacheSize ?s2 + size_entry (heap s r)"
    unfolding eq by (simp add: update_entry_def h2)
  ultimately show ?thesis using d2 t1 t3 h2 by simp
qed

lemma loaded_resolved:
  "refresh_resolved 0 0 result_ok 70 loaded =
     loaded\<lparr>heap := (heap loaded)(0 := (heap loaded 0)\<lparr>result := Some result_ok,
               loading := False, cancelRequest := None, size_entry := 1020, expires := 1070\<rparr>),
            delivered := []\<rparr>"
  by (simp add: refresh_resolved_def has_errors_def result_ok_def setCacheEntrySize_def
      cache_get_def key_of_def allocateCacheSize_def needBytes_def update_entry_def notify_def
      loaded_eq newClient_def Let_def)

text \<open>
  Claim C10.  The running total is meant to be the sum of the sizes of the cached
  entries.  \<^verbatim>\<open>setCacheEntrySize\<close> subtracts the entry's size, makes room, adds
  \<^verbatim>\<open>entry.size\<close> back and only then assigns the new size, so the total keeps the old
  size.  After one query whose result has size 20 the only cached entry has size 1020
  and the total is 1000; \<^verbatim>\<open>clearCache\<close> then evicts the entry and leaves an empty cache
  with a total of -20.
\<close>

theorem cacheSize_drift:
  "cache loaded = [0] \<and> cacheSize loaded = 1000 \<and> cache_total loaded = 1000 \<and>
   cache (refresh_resolved 0 0 result_ok 70 loaded) = [0] \<and>
   cacheSize (refresh_resolved 0 0 result_ok 70 loaded) = 1000 \<and>
   cache_total (refresh_resolved 0 0 result_ok 70 loaded) = 1020 \<and>
   cache (clearCache 80 (refresh_resolved 0 0 result_ok 70 loaded)) = [] \<and>
   cacheSize (clearCache 80 (refresh_resolved 0 0 result_ok 70 loaded)) = - 20"
proof -
  have l: "cache loaded = [0]" "cacheSize loaded = 1000" "cache_total loaded = 1000"
    by (simp_all add: cache_total_def loaded_eq)
  have r: "cache (refresh_resolved 0 0 result_ok 70 loaded) = [0]"
          "cacheSize (refresh_resolved 0 0 result_ok 70 loaded) = 1000"
          "cache_total (refresh_resolved 0 0 result_ok 70 loaded) = 1020"
    by (simp_all add: cache_total_def loaded_resolved l)
  have c: "clearCache 80 (refresh_resolved 0 0 result_ok 70 loaded) =
     (refresh_resolved 0 0 result_ok 70 loaded)
       \<lparr>heap := (heap (refresh_resolved 0 0 result_ok 70 loaded))
                 (0 := (heap (refresh_resolved 0 0 result_ok 70 loaded) 0)\<lparr>expires := 0\<rparr>),
        cache := [], cacheSize := - 20\<rparr>"
    unfolding loaded_resolved
    by (simp add: clearCache_def update_entry_def allocateCacheSize_def needBytes_def
        entriesToRemove_def evict_def cache_has_def key_of_def evictOldest.simps loaded_eq
        newClient_def Let_def)
  show ?thesis using l r by (simp add: c)
qed

section \<open>Properties of the query executor\<close>

subsection \<open>The pending counter\<close>

lemma pending_settle:
  "pendingRequests (snd (executeQueryRaw_settle cfg pf config s)) = pendingRequests s - 1"
  by (simp add: executeQueryRaw_settle_def requestCompleted_def
      split: settled.splits option.splits)

lemma nextPromise_settle:
  "nextPromise (snd (executeQueryRaw_settle cfg pf config s)) = nextPromise s"
  by (simp add: executeQueryRaw_settle_def requestCompleted_def
      split: settled.splits option.splits)

lemma executor_run_invariant:
  "executor_run cfg s outstanding \<Longrightarrow>
     finite outstanding \<and> (\<forall>p\<in>outstanding. p < nextPromise s) \<and>
     pendingRequests s = int (card outstanding)"
proof (induction rule: executor_run.induct)
  case (created maxSize policy cacheTime)
  then show ?case by (simp add: newClient_def)
next
  case (dispatch s outstanding request)
  then have "nextPromise s \<notin> outstanding" by auto
  with dispatch show ?case
    by (auto simp: executeQueryRaw_start_def less_Suc_eq)
next
  case (settle s outstanding p pf config)
  then have "card (outstanding - {p}) = card outstanding - 1" "0 < card outstanding"
    by (auto simp: card_gt_0_iff)
  with settle show ?case
    by (auto simp: pending_settle nextPromise_settle)
qed

text \<open>
  Claim C9.  Dispatch adds one to the pending counter.  However the chain settles (the
  transform hook or the \<^verbatim>\<open>Request\<close> constructor failing, \<^verbatim>\<open>fetch\<close> rejecting, a
  response of any kind, a throwing logger or a body that does not parse), the handlers
  subtract exactly one; a failing transform hook yields the network-error result of the
  configuration handler.  In every run of the executor the counter equals the number of
  outstanding requests, so it is never negative and is zero when none is outstanding.
  \<^verbatim>\<open>fetch\<close> is taken to return a promise, as the platform specifies, and not to throw.
\<close>

theorem pendingRequests_balance:
  "pendingRequests (snd (executeQueryRaw_start request s)) = pendingRequests s + 1 \<and>
   pendingRequests (snd (executeQueryRaw_settle cfg pf config s)) = pendingRequests s - 1 \<and>
   (\<forall>f e. transformRequest cfg = Some f \<and> f config = Rejected e \<longrightarrow>
      executeQueryRaw_settle cfg pf config s =
        (Resolved (config_catch e), s\<lparr>pendingRequests := pendingRequests s - 1\<rparr>)) \<and>
   (\<forall>t outstanding. executor_run cfg t outstanding \<longrightarrow>
      pendingRequests t = int (card outstanding) \<and> 0 \<le> pendingRequests t \<and>
      (outstanding = {} \<longrightarrow> pendingRequests t = 0))"
proof -
  have a: "pendingRequests (snd (executeQueryRaw_start request s)) = pendingRequests s + 1"
    by (simp add: executeQueryRaw_start_def)
  have b: "pendingRequests (snd (executeQueryRaw_settle cfg pf config s)) = pendingRequests s - 1"
    by (rule pending_settle)
  have c: "\<forall>f e. transformRequest cfg = Some f \<and> f config = Rejected e \<longrightarrow>
      executeQueryRaw_settle cfg pf config s =
        (Resolved (config_catch e), s\<lparr>pendingRequests := pendingRequests s - 1\<rparr>)"
    by (simp add: executeQueryRaw_settle_def requestCompleted_def)
  have d: "\<forall>t outstanding. executor_run cfg t outstanding \<longrightarrow>
      pendingRequests t = int (card outstanding) \<and> 0 \<le> pendingRequests t \<and>
      (outstanding = {} \<longrightarrow> pendingRequests t = 0)"
    using executor_run_invariant[of cfg] by auto
  from a b c d show ?thesis by blast
qed

theorem pendingRequests_balance_witness:
  "transformRequest (plain_configuration\<lparr>transformRequest :=
       Some (\<lambda>request. Rejected (ErrString ''no token''))\<rparr>) =
     Some (\<lambda>request. Rejected (ErrString ''no token'')) \<and>
   pendingRequests (snd (executeQueryRaw_start ''q'' (newClient 5000 CacheFirst 1000))) = 1 \<and>
   executor_run (plain_configuration\<lparr>transformRequest :=
       Some (\<lambda>request. Rejected (ErrString ''no token''))\<rparr>)
     (snd (executeQueryRaw_start ''q'' (newClient 5000 CacheFirst 1000))) {0} \<and>
   fst (executeQueryRaw_settle
          (plain_configuration\<lparr>transformRequest :=
             Some (\<lambda>request. Rejected (ErrString ''no token''))\<rparr>)
          (serving (Rejected (ErrString ''offline''))) ''q''
          (snd (executeQueryRaw_start ''q'' (newClient 5000 CacheFirst 1000)))) =
     Resolved (config_catch (ErrString ''no token'')) \<and>
   pendingRequests (snd (executeQueryRaw_settle
          (plain_configuration\<lparr>transformRequest :=
             Some (\<lambda>request. Rejected (ErrString ''no token''))\<rparr>)
          (serving (Rejected (ErrString ''offline''))) ''q''
          (snd (executeQueryRaw_start ''q'' (newClient 5000 CacheFirst 1000))))) = 0 \<and>
   executor_run (plain_configuration\<lparr>transformRequest :=
       Some (\<lambda>request. Rejected (ErrString ''no token''))\<rparr>)
     (snd (executeQueryRaw_settle
          (plain_configuration\<lparr>transformRequest :=
             Some (\<lambda>request. Rejected (ErrString ''no token''))\<rparr>)
          (serving (Rejected (ErrString ''offline''))) ''q''
          (snd (executeQueryRaw_start ''q'' (newClient 5000 CacheFirst 1000))))) {}"
proof -
  let ?cfg = "plain_configuration\<lparr>transformRequest :=
       Some (\<lambda>request. Rejected (ErrString ''no token''))\<rparr>"
  let ?pf = "serving (Rejected (ErrString ''offline''))"
  let ?s0 = "newClient 5000 CacheFirst 1000"
  let ?s1 = "snd (executeQueryRaw_start ''q'' ?s0)"
  let ?s2 = "snd (executeQueryRaw_settle ?cfg ?pf ''q'' ?s1)"
  have t: "transformRequest ?cfg = Some (\<lambda>request. Rejected (ErrString ''no token''))"
    by simp
  have p0: "pendingRequests ?s0 = 0" "fst (executeQueryRaw_start ''q'' ?s0) = 0"
    by (simp_all add: newClient_def executeQueryRaw_start_def)
  have r1: "executor_run ?cfg ?s1 {0}"
    using executor_run.dispatch[OF executor_run.created, of ?cfg "''q''" 5000 CacheFirst 1000]
    by (simp add: p0)
  have r2: "executor_run ?cfg ?s2 {}"
    using executor_run.settle[OF r1, of 0 ?pf "''q''"] by simp
  note A = pendingRequests_balance[of "''q''" ?s0 ?cfg ?pf "''q''"]
  note B = pendingRequests_balance[of "''q''" ?s1 ?cfg ?pf "''q''"]
  have a: "pendingRequests ?s1 = 1" using A by (simp add: p0)
  have b: "pendingRequests ?s2 = 0" using B r2 by blast
  have c: "fst (executeQueryRaw_settle ?cfg ?pf ''q'' ?s1) =
            Resolved (config_catch (ErrString ''no token''))"
    using B t by simp
  from t a r1 c b r2 show ?thesis by blast
qed

subsection \<open>Validation and conversion of failures\<close>

lemma onResponse_invalid:
  assumes "\<not> valid_response (validateResponseContentType cfg) resp"
      and "logHttpError cfg = None \<or> (\<exists>hook. logHttpError cfg = Some hook \<and> hook request resp = None)"
  shows "onResponse cfg request resp = Resolved (network_error_result (statusText resp) None)"
  using assms by (auto simp: onResponse_def)

lemma onResponse_valid:
  assumes "valid_response (validateResponseContentType cfg) resp"
      and "logHttpError cfg = None \<or> (\<exists>hook. logHttpError cfg = Some hook \<and> hook request resp = None)"
  shows "onResponse cfg request resp =
           (case json_body resp of
              Rejected e \<Rightarrow> Rejected e
            | Resolved jsonData \<Rightarrow> json_result resp jsonData)"
  using assms by (auto simp: onResponse_def)

lemma valid_response_plain:
  "valid_response False resp \<longleftrightarrow>
     (200 \<le> status resp \<and> status resp < 300) \<or> (400 \<le> status resp \<and> status resp < 500)"
  by (simp add: valid_response_def)

lemma fetch_catch_resolves:
  "e \<noteq> ErrNull \<Longrightarrow> e \<noteq> ErrUndefined \<Longrightarrow>
     \<exists>msg. fetch_catch e = Resolved (network_error_result msg (Some e))"
  by (cases e) (auto simp: fetch_catch_def)

text \<open>
  Claim C5.  The promise of \<^verbatim>\<open>executeQueryRaw\<close> is meant never to reject.  When
  \<^verbatim>\<open>fetch\<close> rejects with \<^verbatim>\<open>undefined\<close>, or \<^verbatim>\<open>logHttpError\<close> throws \<^verbatim>\<open>null\<close> on a
  response with status 500, the \<^verbatim>\<open>.catch\<close> handler reads \<^verbatim>\<open>error.message\<close>, throws, and
  the promise rejects.  The handler for the request configuration does not read the
  error and turns the same values into a network-error result.
\<close>

theorem executeQueryRaw_rejects:
  "fst (executeQueryRaw_settle plain_configuration (serving (Rejected ErrUndefined)) ''q''
          (newClient 5000 CacheFirst 1000)) = Rejected TypeError \<and>
   fst (executeQueryRaw_settle
          (plain_configuration\<lparr>logHttpError := Some (\<lambda>request resp. Some ErrNull)\<rparr>)
          (serving (Resolved response_500)) ''q''
          (newClient 5000 CacheFirst 1000)) = Rejected TypeError \<and>
   fst (executeQueryRaw_settle
          (plain_configuration\<lparr>transformRequest := Some (\<lambda>request. Rejected ErrNull)\<rparr>)
          (serving (Resolved response_500)) ''q''
          (newClient 5000 CacheFirst 1000)) =
     Resolved (network_error_result ''Error initializing request configuration'' (Some ErrNull)) \<and>
   fst (executeQueryRaw_settle plain_configuration (serving (Resolved response_500)) ''q''
          (newClient 5000 CacheFirst 1000)) =
     Resolved (network_error_result ''Internal Server Error'' None)"
  by (simp add: executeQueryRaw_settle_def plain_configuration_def serving_def fetch_catch_def
      config_catch_def onResponse_def response_500_def valid_response_def)

subsection \<open>The result of a parsed response\<close>

text \<open>
  Claim C6.  The size of a result is meant to be the size of the response: the
  \<^verbatim>\<open>Content-Length\<close> header when there is one, and otherwise the length of the
  serialised body.  With \<^verbatim>\<open>Content-Length: 20\<close> the body \<^verbatim>\<open>{"data":{"x":1}}\<close> yields
  \<^verbatim>\<open>data\<close> \<^verbatim>\<open>{x:1}\<close>, no errors, \<^verbatim>\<open>networkError = false\<close> and size 20, and a body
  with a non-empty \<^verbatim>\<open>errors\<close> array yields no \<^verbatim>\<open>data\<close>.  Without the header the same
  body, which serialises to 16 characters, yields size 37: \<^verbatim>\<open>JSON.stringify\<close> is applied
  to \<^verbatim>\<open>jsonData\<close>, which is the result object itself and by then carries
  \<^verbatim>\<open>networkError\<close>, so what is measured is
  \<^verbatim>\<open>{"data":{"x":1},"networkError":false}\<close>.
\<close>

theorem size_without_content_length:
  "onResponse plain_configuration ''q'' (response_200 (Some ''20'') body_x1) =
     Resolved \<lparr>data = Some (JObj [(''x'', JNum 1)]), errors = None, networkError = False,
               size_result = Num 20, extensions = None\<rparr> \<and>
   onResponse plain_configuration ''q'' (response_200 None body_x1) =
     Resolved \<lparr>data = Some (JObj [(''x'', JNum 1)]), errors = None, networkError = False,
               size_result = Num 37, extensions = None\<rparr> \<and>
   map_option length (JSON_stringify body_x1) = Some 16 \<and>
   JSON_stringify (JObj (result_object [(''data'', JObj [(''x'', JNum 1)])])) =
     JSON_stringify (JObj [(''data'', JObj [(''x'', JNum 1)]), (''networkError'', JBool False)]) \<and>
   onResponse plain_configuration ''q'' (response_200 (Some ''48'') body_with_errors) =
     Resolved \<lparr>data = None, errors = Some (JArr [JObj [(''message'', JStr ''denied'')]]),
               networkError = False, size_result = Num 48, extensions = None\<rparr>"
proof -
  note defs = onResponse_def plain_configuration_def response_200_def body_x1_def
      body_with_errors_def valid_response_def json_result_def errors_present_def
      result_object_def obj_set_def response_size_def stringify_length_def
  have with_header:
    "onResponse plain_configuration ''q'' (response_200 (Some ''20'') body_x1) =
     Resolved \<lparr>data = Some (JObj [(''x'', JNum 1)]), errors = None, networkError = False,
               size_result = Num 20, extensions = None\<rparr>"
    by (simp add: defs parseInt10_def js_whitespace_def is_digit_def digits_value_def
        digit_value_def exact_limit_def Let_def)
  have without_header:
    "onResponse plain_configuration ''q'' (response_200 None body_x1) =
     Resolved \<lparr>data = Some (JObj [(''x'', JNum 1)]), errors = None, networkError = False,
               size_result = Num 37, extensions = None\<rparr>"
    by (simp add: defs json_quote_def json_escape_def show_int_def show_nat.simps
        exact_limit_def)
  have body: "map_option length (JSON_stringify body_x1) = Some 16"
    by (simp add: body_x1_def json_quote_def json_escape_def show_int_def show_nat.simps
        exact_limit_def)
  have measured:
    "JSON_stringify (JObj (result_object [(''data'', JObj [(''x'', JNum 1)])])) =
     JSON_stringify (JObj [(''data'', JObj [(''x'', JNum 1)]), (''networkError'', JBool False)])"
    by (simp add: result_object_def obj_set_def errors_present_def)
  have cleared:
    "onResponse plain_configuration ''q'' (response_200 (Some ''48'') body_with_errors) =
     Resolved \<lparr>data = None, errors = Some (JArr [JObj [(''message'', JStr ''denied'')]]),
               networkError = False, size_result = Num 48, extensions = None\<rparr>"
    by (simp add: defs parseInt10_def js_whitespace_def is_digit_def digits_value_def
        digit_value_def exact_limit_def Let_def)
  from with_header without_header body measured cleared show ?thesis by simp
qed

section \<open>Properties of the subscription engine\<close>

subsection \<open>Abort\<close>

lemma doAbort0_aborted: "aborted s \<Longrightarrow> doAbort0 r s = s"
  by (simp add: doAbort0_def)

lemma doAbort0_fresh:
  "\<not> aborted s \<Longrightarrow>
     doAbort0 r s =
       s\<lparr>aborted := True, activeSubscriptions := activeSubscriptions s - 1,
         hooks := (if timeoutHandler s then hooks s @ [HookClose r] else hooks s),
         onClose := onClose s @ [r]\<rparr>"
  by (simp add: doAbort0_def call_hook_def Let_def)

lemma doAbort0_is_aborted: "aborted (doAbort0 r s)"
  by (cases "aborted s") (simp_all add: doAbort0_aborted doAbort0_fresh)

lemma doAbort0_keeps:
  "webSocket (doAbort0 r s) = webSocket s" "connectionResolved (doAbort0 r s) = connectionResolved s"
  "connected (doAbort0 r s) = connected s" "onData (doAbort0 r s) = onData s"
  by (cases "aborted s"; simp add: doAbort0_aborted doAbort0_fresh)+

lemma doAbort1_settled:
  "aborted s \<Longrightarrow> connectionResolved s \<Longrightarrow> doAbort1 r s = s"
  by (simp add: doAbort1_def doAbort0_aborted)

lemma doAbort1_props:
  "aborted (doAbort1 r s)" "connectionResolved (doAbort1 r s)"
  "webSocket (doAbort1 r s) = webSocket s"
  by (simp_all add: doAbort1_def Let_def doAbort0_is_aborted doAbort0_keeps)

lemma doAbort_settled:
  assumes "aborted s" "connectionResolved s" "closing s"
  shows "doAbort r s = s"
proof (cases "webSocket s")
  case None
  then show ?thesis using assms by (simp add: doAbort_def doAbort1_settled)
next
  case (Some ws)
  then have "ws_close (if r = Timeout then 4408 else 1000) ws = ws"
    using assms(3) by (auto simp: closing_def ws_close_def)
  then show ?thesis using Some assms by (simp add: doAbort_def doAbort1_settled)
qed

lemma doAbort_props:
  "aborted (doAbort r s)" "connectionResolved (doAbort r s)" "closing (doAbort r s)"
proof -
  let ?s1 = "doAbort1 r s"
  show "aborted (doAbort r s)" "connectionResolved (doAbort r s)"
    by (cases "webSocket ?s1"; simp add: doAbort_def Let_def doAbort1_props)+
  show "closing (doAbort r s)"
    by (cases "webSocket ?s1")
       (auto simp: doAbort_def Let_def closing_def ws_close_def)
qed

lemma doAbort_twice: "doAbort r2 (doAbort r1 s) = doAbort r1 s"
  by (intro doAbort_settled doAbort_props)

lemma doAbort_fresh:
  assumes "\<not> aborted s"
  shows "doAbort r s =
     s\<lparr>aborted := True, activeSubscriptions := activeSubscriptions s - 1,
       hooks := (if timeoutHandler s then hooks s @ [HookClose r] else hooks s),
       onClose := onClose s @ [r],
       connectionResolved := True,
       connected := (if connectionResolved s then connected s else Failed),
       webSocket := map_option (\<lambda>ws. if readyState ws \<noteq> 3
                           then ws_close (if r = Timeout then 4408 else 1000) ws else ws)
          (webSocket s)\<rparr>"
proof -
  have 1: "doAbort1 r s =
     s\<lparr>aborted := True, activeSubscriptions := activeSubscriptions s - 1,
       hooks := (if timeoutHandler s then hooks s @ [HookClose r] else hooks s),
       onClose := onClose s @ [r],
       connectionResolved := True,
       connected := (if connectionResolved s then connected s else Failed)\<rparr>"
    using assms by (cases "connectionResolved s") (simp_all add: doAbort1_def Let_def doAbort0_fresh)
  show ?thesis
    unfolding doAbort_def Let_def 1 by (cases "webSocket s") simp_all
qed

lemma doAbort_aborted:
  assumes "aborted s"
  shows "activeSubscriptions (doAbort r s) = activeSubscriptions s"
        "onClose (doAbort r s) = onClose s" "hooks (doAbort r s) = hooks s"
        "onData (doAbort r s) = onData s"
  using assms
  by (cases "webSocket s"; simp add: doAbort_def doAbort1_def Let_def doAbort0_aborted)+

text \<open>
  Claim C8.  The first \<^verbatim>\<open>abort\<close> of a session sets \<^verbatim>\<open>aborted\<close>, subtracts one from the
  counter of active subscriptions, calls the timeout handler's \<^verbatim>\<open>onClose\<close> (when a
  handler is attached) and the caller's close callback with the reason, rejects the
  connection promise if it is still pending, and closes the socket, if there is one and
  it is not closed, with code 4408 for \<^verbatim>\<open>Timeout\<close> and 1000 otherwise.  On an aborted
  session \<^verbatim>\<open>abort\<close> changes neither the counter nor what the callbacks have received,
  and the socket's handlers do nothing.  An \<^verbatim>\<open>abort\<close> after an \<^verbatim>\<open>abort\<close> leaves the
  session exactly as the first left it, whatever the two reasons.  The second
  \<^verbatim>\<open>webSocket.close\<close> call that the code makes while the socket is closing is one the
  platform ignores.
\<close>

theorem abort_idempotent:
  "doAbort r2 (doAbort r1 s) = doAbort r1 s \<and>
   (\<not> aborted s \<longrightarrow>
      aborted (doAbort r1 s) \<and>
      activeSubscriptions (doAbort r1 s) = activeSubscriptions s - 1 \<and>
      activeSubscriptions (doAbort r2 (doAbort r1 s)) = activeSubscriptions s - 1 \<and>
      onClose (doAbort r1 s) = onClose s @ [r1] \<and>
      hooks (doAbort r1 s) = (if timeoutHandler s then hooks s @ [HookClose r1] else hooks s) \<and>
      connected (doAbort r1 s) = (if connectionResolved s then connected s else Failed) \<and>
      onData (doAbort r1 s) = onData s \<and>
      webSocket (doAbort r1 s) =
        map_option (\<lambda>ws. if readyState ws \<noteq> 3
                           then ws_close (if r1 = Timeout then 4408 else 1000) ws else ws)
          (webSocket s) \<and>
      (\<forall>ws. webSocket s = Some ws \<and> readyState ws < 2 \<longrightarrow>
         webSocket (doAbort r1 s) =
           Some (ws\<lparr>readyState := 2,
                    closeCode := Some (if r1 = Timeout then 4408 else 1000)\<rparr>)) \<and>
      (\<forall>ws. webSocket s = Some ws \<and> readyState ws = 3 \<longrightarrow>
         webSocket (doAbort r1 s) = Some ws)) \<and>
   (aborted s \<longrightarrow>
      activeSubscriptions (doAbort r1 s) = activeSubscriptions s \<and>
      onClose (doAbort r1 s) = onClose s \<and> hooks (doAbort r1 s) = hooks s \<and>
      onData (doAbort r1 s) = onData s \<and>
      onmessage ev s = s \<and> onopen s = s \<and> onclose s = s)"
proof -
  have twice: "doAbort r2 (doAbort r1 s) = doAbort r1 s" by (rule doAbort_twice)
  have first: "\<not> aborted s \<longrightarrow>
      aborted (doAbort r1 s) \<and>
      activeSubscriptions (doAbort r1 s) = activeSubscriptions s - 1 \<and>
      onClose (doAbort r1 s) = onClose s @ [r1] \<and>
      hooks (doAbort r1 s) = (if timeoutHandler s then hooks s @ [HookClose r1] else hooks s) \<and>
      connected (doAbort r1 s) = (if connectionResolved s then connected s else Failed) \<and>
      onData (doAbort r1 s) = onData s \<and>
      webSocket (doAbort r1 s) =
        map_option (\<lambda>ws. if readyState ws \<noteq> 3
                           then ws_close (if r1 = Timeout then 4408 else 1000) ws else ws)
          (webSocket s)"
    by (simp add: doAbort_fresh)
  have open_socket: "\<not> aborted s \<longrightarrow> (\<forall>ws. webSocket s = Some ws \<and> readyState ws < 2 \<longrightarrow>
         webSocket (doAbort r1 s) =
           Some (ws\<lparr>readyState := 2,
                    closeCode := Some (if r1 = Timeout then 4408 else 1000)\<rparr>))"
    using first by (auto simp: ws_close_def)
  have closed_socket: "\<not> aborted s \<longrightarrow> (\<forall>ws. webSocket s = Some ws \<and> readyState ws = 3 \<longrightarrow>
         webSocket (doAbort r1 s) = Some ws)"
    using first by auto
  have later: "aborted s \<longrightarrow>
      activeSubscriptions (doAbort r1 s) = activeSubscriptions s \<and>
      onClose (doAbort r1 s) = onClose s \<and> hooks (doAbort r1 s) = hooks s \<and>
      onData (doAbort r1 s) = onData s \<and>
      onmessage ev s = s \<and> onopen s = s \<and> onclose s = s"
    by (simp add: doAbort_aborted onmessage_def onopen_def onclose_def)
  from twice first open_socket closed_socket later show ?thesis by simp
qed

lemma live_eq:
  "live =
     \<lparr>operation = ''subscription { tick }'', timeoutStrategy = True,
      consumes = (\<lambda>message. False), logWebSocketConnectionError = False, aborted = False,
      state = Opening, connectionResolved = False, connected = Pending,
      webSocket = Some \<lparr>readyState = 1, closeCode = None, outbox = [Connection_init None]\<rparr>,
      payload = None, timeoutHandler = True, activeSubscriptions = 1, onData = [],
      onClose = [], onOpen = 0,
      hooks = [HookOpen, HookOutbound (Connection_init None)], logged = []\<rparr>"
  by (simp add: live_def open_event_def payload_resolved_def executeSubscription_def
      onopen_def send_def call_hook_def)

theorem abort_idempotent_witness:
  "\<not> aborted live \<and> activeSubscriptions live = 1 \<and>
   aborted (doAbort Timeout live) \<and>
   activeSubscriptions (doAbort Timeout live) = 0 \<and>
   activeSubscriptions (doAbort Client (doAbort Timeout live)) = 0 \<and>
   onClose (doAbort Timeout live) = [Timeout] \<and>
   hooks (doAbort Timeout live) =
     [HookOpen, HookOutbound (Connection_init None), HookClose Timeout] \<and>
   webSocket (doAbort Timeout live) =
     Some \<lparr>readyState = 2, closeCode = Some 4408, outbox = [Connection_init None]\<rparr> \<and>
   webSocket (doAbort Client live) =
     Some \<lparr>readyState = 2, closeCode = Some 1000, outbox = [Connection_init None]\<rparr> \<and>
   doAbort Client (doAbort Timeout live) = doAbort Timeout live \<and>
   aborted (close_event (doAbort Client live)) \<and>
   webSocket (doAbort Timeout (close_event (doAbort Client live))) =
     Some \<lparr>readyState = 3, closeCode = Some 1000, outbox = [Connection_init None]\<rparr> \<and>
   onClose (doAbort Timeout (close_event (doAbort Client live))) = [Client]"
proof -
  have l: "\<not> aborted live" "activeSubscriptions live = 1" "onClose live = []"
          "timeoutHandler live" "hooks live = [HookOpen, HookOutbound (Connection_init None)]"
          "webSocket live = Some \<lparr>readyState = 1, closeCode = None, outbox = [Connection_init None]\<rparr>"
    by (simp_all add: live_eq)
  note A = abort_idempotent[of Client Timeout live]
  note B = abort_idempotent[of Timeout Client live]
  have a: "aborted (doAbort Timeout live)" "activeSubscriptions (doAbort Timeout live) = 0"
          "activeSubscriptions (doAbort Client (doAbort Timeout live)) = 0"
          "onClose (doAbort Timeout live) = [Timeout]"
          "hooks (doAbort Timeout live) =
             [HookOpen, HookOutbound (Connection_init None), HookClose Timeout]"
          "doAbort Client (doAbort Timeout live) = doAbort Timeout live"
    using A l by simp_all
  have w: "webSocket (doAbort Timeout live) =
             Some \<lparr>readyState = 2, closeCode = Some 4408, outbox = [Connection_init None]\<rparr>"
    using A l by (simp add: ws_close_def)
  have b: "webSocket (doAbort Client live) =
             Some \<lparr>readyState = 2, closeCode = Some 1000, outbox = [Connection_init None]\<rparr>"
          "aborted (doAbort Client live)" "onClose (doAbort Client live) = [Client]"
    using B l by (simp_all add: ws_close_def)
  have c: "close_event (doAbort Client live) =
             (doAbort Client live)\<lparr>webSocket :=
                Some \<lparr>readyState = 3, closeCode = Some 1000, outbox = [Connection_init None]\<rparr>\<rparr>"
    using b by (simp add: close_event_def onclose_def)
  have x: "aborted (close_event (doAbort Client live))"
          "connectionResolved (close_event (doAbort Client live))"
          "closing (close_event (doAbort Client live))"
    using b(2) doAbort_props(2)[of Client live] by (simp_all add: c closing_def)
  have settled: "doAbort Timeout (close_event (doAbort Client live)) =
                   close_event (doAbort Client live)"
    using x by (rule doAbort_settled)
  have d: "aborted (close_event (doAbort Client live))"
          "webSocket (doAbort Timeout (close_event (doAbort Client live))) =
             Some \<lparr>readyState = 3, closeCode = Some 1000, outbox = [Connection_init None]\<rparr>"
          "onClose (doAbort Timeout (close_event (doAbort Client live))) = [Client]"
    using x(1) b(3) unfolding settled by (simp_all add: c)
  from l a w b d show ?thesis by simp
qed

subsection \<open>Message dispatch\<close>















end
